theory Spec2Isabelle
  imports Complex_Main
begin

section \<open>JavaScript values\<close>

text \<open>
  A JavaScript number is a finite value, NaN or one of the two infinities. Only strict
  equality and \<^verbatim>\<open>Number.isFinite\<close> are applied to numbers by the code modelled
  here, never arithmetic, so the finite values are taken as reals (\<open>+0\<close> and \<open>-0\<close>
  are the same value under \<^verbatim>\<open>===\<close>).
\<close>

datatype number = Fin real | NaN | PosInf | NegInf

text \<open>\<^verbatim>\<open>a === b\<close> on two numbers: NaN is equal to nothing, itself included.\<close>

fun number_seq :: "number \<Rightarrow> number \<Rightarrow> bool" where
  "number_seq NaN b = False"
| "number_seq a NaN = False"
| "number_seq a b = (a = b)"

section \<open>deep-equal.ts: arePointsEqual\<close>





section \<open>The proxied transform (createProxyTransform)\<close>

subsection \<open>Values, view state, errors\<close>

text \<open>
  A value thrown inside a handler: an \<^verbatim>\<open>Error\<close> with its message, or anything else.
  Every catch block builds its report with
  \<^verbatim>\<open>error instanceof Error ? error.message : 'Unknown error'\<close>.
\<close>

datatype thrown = JsError string | NonError

fun errorMessage :: "thrown \<Rightarrow> string" where
  "errorMessage (JsError m) = m"
| "errorMessage NonError = ''Unknown error''"

text \<open>
  \<^verbatim>\<open>Partial<ViewState>\<close>: the camera fields the handlers read from
  \<^verbatim>\<open>reactViewState\<close>. A field that is absent or \<^verbatim>\<open>undefined\<close> is \<open>None\<close>; a
  present field is a number, NaN and the infinities included.
\<close>

record ViewState =
  longitude :: "number option"
  latitude :: "number option"
  zoom :: "number option"
  pitch :: "number option"
  bearing :: "number option"
  elevation :: "number option"

definition emptyViewState :: ViewState where
  "emptyViewState =
     \<lparr>longitude = None, latitude = None, zoom = None, pitch = None, bearing = None,
      elevation = None\<rparr>"

text \<open>\<^verbatim>\<open>Number.isFinite(x)\<close> for a view state field.\<close>

fun isFinite :: "number option \<Rightarrow> bool" where
  "isFinite (Some (Fin x)) = True"
| "isFinite v = False"

text \<open>
  The values the handlers receive and return (\<^verbatim>\<open>unknown\<close> in the source). An object
  carries its constructor (\<open>None\<close> when \<^verbatim>\<open>'constructor' in v\<close> is false) and its
  properties. \<open>'tr\<close> is the engine's \<^verbatim>\<open>Transform\<close>. The model has no addresses: a
  value stands for its reference, so one value read twice is one reference.
\<close>

datatype 'tr jsval =
    Undefined
  | Null
  | JBool bool
  | JNum number
  | JStr string
  | JObject "string option" "(string \<times> 'tr jsval) list"
  | JArray "'tr jsval list"
  | JFunction nat
  | JViewState ViewState
  | JTransform 'tr

text \<open>\<^verbatim>\<open>a === b\<close>: numbers by \<open>number_seq\<close>, everything else by identity.\<close>

fun strict_eq :: "'tr jsval \<Rightarrow> 'tr jsval \<Rightarrow> bool" where
  "strict_eq (JNum a) (JNum b) = number_seq a b"
| "strict_eq a b = (a = b)"

text \<open>\<^verbatim>\<open>Number.isFinite(z)\<close> for an arbitrary value.\<close>

fun numberIsFinite :: "'tr jsval \<Rightarrow> bool" where
  "numberIsFinite (JNum (Fin x)) = True"
| "numberIsFinite v = False"

text \<open>Truthiness, as \<^verbatim>\<open>&&\<close> and \<^verbatim>\<open>||\<close> test it.\<close>

fun truthy :: "'tr jsval \<Rightarrow> bool" where
  "truthy Undefined = False"
| "truthy Null = False"
| "truthy (JBool b) = b"
| "truthy (JNum (Fin x)) = (x \<noteq> 0)"
| "truthy (JNum NaN) = False"
| "truthy (JNum n) = True"
| "truthy (JStr s) = (s \<noteq> [])"
| "truthy v = True"

text \<open>
  The three variables of the closure are typed \<^verbatim>\<open>boolean\<close>,
  \<^verbatim>\<open>Transform | null\<close> and \<^verbatim>\<open>Partial<ViewState>\<close>, and the set handler stores
  into them with an unchecked cast (\<^verbatim>\<open>value as boolean\<close> and so on). The casts are
  the identity on values of the declared type. For a value outside the declared type the
  model keeps what every later test of the variable sees: its truthiness for
  \<^verbatim>\<open>internalUpdate\<close>, no transform for \<^verbatim>\<open>proposedTransform\<close>, and no declared field
  for \<^verbatim>\<open>reactViewState\<close>.
\<close>

fun asBoolean :: "'tr jsval \<Rightarrow> bool" where
  "asBoolean v = truthy v"

fun asTransform :: "'tr jsval \<Rightarrow> 'tr option" where
  "asTransform (JTransform t) = Some t"
| "asTransform v = None"

fun asViewState :: "'tr jsval \<Rightarrow> ViewState" where
  "asViewState (JViewState vs) = vs"
| "asViewState v = emptyViewState"

text \<open>\<^verbatim>\<open>ProxyTransformError\<close> and \<^verbatim>\<open>createProxyError\<close>.\<close>

record 'tr ProxyTransformError =
  err_operation :: string
  err_property :: string
  err_value :: "'tr jsval"
  err_message :: string

definition createProxyError ::
  "string \<Rightarrow> string \<Rightarrow> 'tr jsval \<Rightarrow> string \<Rightarrow> 'tr ProxyTransformError" where
  "createProxyError operation property v message =
     \<lparr>err_operation = operation, err_property = property, err_value = v,
      err_message = message\<rparr>"

subsection \<open>What the handlers are closed over\<close>

text \<open>
  The engine's \<^verbatim>\<open>Transform\<close> class is not part of this repository, and
  \<^verbatim>\<open>isViewStateControlled\<close> and \<^verbatim>\<open>applyViewStateToTransform\<close> are imported from
  \<^verbatim>\<open>../utils/transform\<close>; the handlers use them through these operations only, so
  they are parameters of the model. Each operation that runs engine code may throw.
  \<^item> \<open>tr_get t p\<close> is \<^verbatim>\<open>t[p]\<close>, \<open>tr_set t p v\<close> is \<^verbatim>\<open>t[p] = v\<close>,
    \<open>tr_call t m args\<close> is \<^verbatim>\<open>t[m](...args)\<close>, \<open>tr_clone t\<close> is \<^verbatim>\<open>t.clone()\<close>;
  \<^item> \<open>construct c a b\<close> is \<^verbatim>\<open>new c(a, b)\<close>;
  \<^item> \<open>onErrorGiven\<close> says whether the optional \<^verbatim>\<open>onError\<close> callback was passed.
\<close>

record 'tr engine =
  onErrorGiven :: bool
  tr_get :: "'tr \<Rightarrow> string \<Rightarrow> thrown + 'tr jsval"
  tr_set :: "'tr \<Rightarrow> string \<Rightarrow> 'tr jsval \<Rightarrow> thrown + 'tr"
  tr_call :: "'tr \<Rightarrow> string \<Rightarrow> 'tr jsval list \<Rightarrow> thrown + 'tr"
  tr_clone :: "'tr \<Rightarrow> thrown + 'tr"
  construct :: "string \<Rightarrow> 'tr jsval \<Rightarrow> 'tr jsval \<Rightarrow> thrown + 'tr jsval"
  isViewStateControlled :: "ViewState \<Rightarrow> bool"
  applyViewStateToTransform :: "'tr \<Rightarrow> ViewState \<Rightarrow> thrown + 'tr"

text \<open>
  The variables of the closure: \<^verbatim>\<open>internalUpdate\<close>, \<^verbatim>\<open>reactViewState\<close>,
  \<^verbatim>\<open>controlledTransform\<close> (the committed transform, seen by painter and style) and
  \<^verbatim>\<open>proposedTransform\<close> (\<open>None\<close> for \<^verbatim>\<open>null\<close>). \<open>reported\<close> lists the errors
  handed to \<^verbatim>\<open>onError\<close>, oldest first.
\<close>

record 'tr proxy =
  internalUpdate :: bool
  reactViewState :: ViewState
  controlledTransform :: 'tr
  proposedTransform :: "'tr option"
  reported :: "'tr ProxyTransformError list"

text \<open>\<^verbatim>\<open>onError?.(error)\<close>\<close>

definition onError :: "'tr engine \<Rightarrow> 'tr ProxyTransformError \<Rightarrow> 'tr proxy \<Rightarrow> 'tr proxy" where
  "onError E err st = (if onErrorGiven E then st\<lparr>reported := reported st @ [err]\<rparr> else st)"

definition unproxiedMethods :: "string list" where
  "unproxiedMethods =
     [''_calcMatrices'', ''_calcFogMatrices'', ''_updateCameraState'', ''_updateSeaLevelZoom'']"

definition validProps :: "string list" where
  "validProps =
     [''center'', ''_center'', ''zoom'', ''_zoom'', ''_seaLevelZoom'', ''pitch'', ''_pitch'',
      ''bearing'', ''rotation'', ''angle'', ''_centerAltitude'', ''_setZoom'',
      ''_translateCameraConstrained'',
      ''$reactViewState'', ''$proposedTransform'', ''$internalUpdate'']"

text \<open>
  \<^verbatim>\<open>validProps.has(prop) || unproxiedMethods.has(prop) || typeof prop === 'string'\<close>.
  The handlers declare \<^verbatim>\<open>prop: string\<close>, so the last disjunct is \<open>True\<close>.
\<close>

definition isValidTransformProperty :: "string \<Rightarrow> bool" where
  "isValidTransformProperty prop =
     (prop \<in> set validProps \<or> prop \<in> set unproxiedMethods \<or> True)"

text \<open>
  \<^verbatim>\<open>createProxyTransform(tr, onError)\<close>: a value that is not an object is reported and
  thrown; otherwise the proxy starts with no mutation in progress, an empty view state and
  no proposed transform.
\<close>

definition createProxyTransform ::
  "'tr engine \<Rightarrow> 'tr jsval \<Rightarrow> 'tr ProxyTransformError + 'tr proxy" where
  "createProxyTransform E tr =
     (case tr of
        JTransform t \<Rightarrow>
          Inr \<lparr>internalUpdate = False, reactViewState = emptyViewState,
               controlledTransform = t, proposedTransform = None, reported = []\<rparr>
      | _ \<Rightarrow>
          Inl (createProxyError ''initialization'' ''transform'' tr
                 ''Invalid transform object provided''))"

subsection \<open>The get handler\<close>

text \<open>
  \<^verbatim>\<open>proposedTransform = proposedTransform || controlledTransform.clone()\<close> inside its
  \<^verbatim>\<open>try\<close>; \<open>mkError\<close> builds the report of the \<^verbatim>\<open>catch\<close>.
\<close>

definition cloneIfAbsent ::
  "'tr engine \<Rightarrow> (thrown \<Rightarrow> 'tr ProxyTransformError) \<Rightarrow> 'tr proxy \<Rightarrow> 'tr proxy" where
  "cloneIfAbsent E mkError st =
     (case proposedTransform st of
        Some p \<Rightarrow> st
      | None \<Rightarrow>
          (case tr_clone E (controlledTransform st) of
             Inr c \<Rightarrow> st\<lparr>proposedTransform := Some c\<rparr>
           | Inl e \<Rightarrow> onError E (mkError e) st))"

text \<open>
  What a get returns: a value, or one of the two closures the handler builds. A closure
  reads the variables of the proxy when it is called, so calling it is a function of the
  state at that time (\<open>call_setZoom\<close>, \<open>call_unproxied\<close> below).
\<close>

datatype 'tr got = Value "'tr jsval" | SetZoomFn | UnproxiedFn string

definition get_handler :: "'tr engine \<Rightarrow> 'tr proxy \<Rightarrow> string \<Rightarrow> 'tr proxy \<times> 'tr got" where
  "get_handler E st prop =
     (if \<not> isValidTransformProperty prop then
        (onError E (createProxyError ''get'' prop Undefined (''Invalid property access: '' @ prop)) st,
         Value Undefined)
      else if prop = ''$reactViewState'' then (st, Value (JViewState (reactViewState st)))
      else if prop = ''$proposedTransform'' then
        (st, Value (case proposedTransform st of None \<Rightarrow> Null | Some p \<Rightarrow> JTransform p))
      else if prop = ''$internalUpdate'' then (st, Value (JBool (internalUpdate st)))
      else if prop = ''_setZoom'' then (st, SetZoomFn)
      else
        (let st1 =
               (if internalUpdate st \<and> prop = ''_translateCameraConstrained''
                   \<and> isViewStateControlled E (reactViewState st)
                then cloneIfAbsent E
                       (\<lambda>e. createProxyError ''clone'' ''_translateCameraConstrained'' Undefined
                              (''Error cloning transform: '' @ errorMessage e)) st
                else st)
         in if prop \<in> set unproxiedMethods then (st1, UnproxiedFn prop)
            else
              (case tr_get E
                      (case proposedTransform st1 of
                         Some p \<Rightarrow> if internalUpdate st1 then p else controlledTransform st1
                       | None \<Rightarrow> controlledTransform st1) prop of
                 Inr v \<Rightarrow> (st1, Value v)
               | Inl e \<Rightarrow>
                   (onError E (createProxyError ''get'' prop Undefined
                       (''Unexpected error in proxy getter: '' @ errorMessage e)) st1,
                    Value Undefined))))"

text \<open>
  The closure returned for \<^verbatim>\<open>_setZoom\<close>, called with \<open>z\<close>. One \<^verbatim>\<open>try\<close> holds both
  calls: when the call on the proposed transform throws, the call on the controlled
  transform is not made.
\<close>

definition call_setZoom :: "'tr engine \<Rightarrow> 'tr proxy \<Rightarrow> 'tr jsval \<Rightarrow> 'tr proxy" where
  "call_setZoom E st z =
     (let caught = (\<lambda>e s. onError E (createProxyError ''method'' ''_setZoom'' z
                                (''Error in _setZoom: '' @ errorMessage e)) s)
      in if \<not> numberIsFinite z then
           onError E (createProxyError ''method'' ''_setZoom'' z
                        ''Invalid zoom value: must be finite number'') st
         else
           (case (case proposedTransform st of
                    Some p \<Rightarrow>
                      if internalUpdate st then
                        (case tr_call E p ''_setZoom'' [z] of
                           Inr p' \<Rightarrow> Inr (st\<lparr>proposedTransform := Some p'\<rparr>)
                         | Inl e \<Rightarrow> Inl e)
                      else Inr st
                  | None \<Rightarrow> Inr st) of
              Inl e \<Rightarrow> caught e st
            | Inr st1 \<Rightarrow>
                if \<not> isFinite (zoom (reactViewState st1)) then
                  (case tr_call E (controlledTransform st1) ''_setZoom'' [z] of
                     Inr c' \<Rightarrow> st1\<lparr>controlledTransform := c'\<rparr>
                   | Inl e \<Rightarrow> caught e st1)
                else st1))"

text \<open>The closure returned for an unproxied method, called with \<open>params\<close>.\<close>

definition call_unproxied ::
  "'tr engine \<Rightarrow> 'tr proxy \<Rightarrow> string \<Rightarrow> 'tr jsval list \<Rightarrow> 'tr proxy" where
  "call_unproxied E st prop params =
     (let caught = (\<lambda>e s. onError E (createProxyError ''method'' prop (JArray params)
                                (''Error in unproxied method: '' @ errorMessage e)) s)
      in case (case proposedTransform st of
                 Some p \<Rightarrow>
                   (case tr_call E p prop params of
                      Inr p' \<Rightarrow> Inr (st\<lparr>proposedTransform := Some p'\<rparr>)
                    | Inl e \<Rightarrow> Inl e)
               | None \<Rightarrow> Inr st) of
           Inl e \<Rightarrow> caught e st
         | Inr st1 \<Rightarrow>
             (case tr_call E (controlledTransform st1) prop params of
                Inr c' \<Rightarrow> st1\<lparr>controlledTransform := c'\<rparr>
              | Inl e \<Rightarrow> caught e st1))"

subsection \<open>The set handler\<close>

text \<open>
  \<^verbatim>\<open>lngLatValue && typeof lngLatValue === 'object' && 'constructor' in lngLatValue\<close>,
  giving \<^verbatim>\<open>lngLatValue.constructor\<close> when it holds.
\<close>

fun constructorOf :: "'tr jsval \<Rightarrow> string option" where
  "constructorOf (JObject c fs) = c"
| "constructorOf (JArray xs) = Some ''Array''"
| "constructorOf (JViewState vs) = Some ''Object''"
| "constructorOf (JTransform t) = Some ''Transform''"
| "constructorOf v = None"

text \<open>\<^verbatim>\<open>v[name]\<close> for a value that passed the test above.\<close>

fun getField :: "'tr engine \<Rightarrow> 'tr jsval \<Rightarrow> string \<Rightarrow> thrown + 'tr jsval" where
  "getField E (JObject c fs) name =
     Inr (case map_of fs name of Some x \<Rightarrow> x | None \<Rightarrow> Undefined)"
| "getField E (JTransform t) name = tr_get E t name"
| "getField E v name = Inr Undefined"

text \<open>\<^verbatim>\<open>declared ?? v[name]\<close>: the right operand is read only when the left is nullish.\<close>

definition coalesce ::
  "'tr engine \<Rightarrow> number option \<Rightarrow> 'tr jsval \<Rightarrow> string \<Rightarrow> thrown + 'tr jsval" where
  "coalesce E declared v name =
     (case declared of Some n \<Rightarrow> Inr (JNum n) | None \<Rightarrow> getField E v name)"

text \<open>
  The \<^verbatim>\<open>center\<close> branch. The result is the state (a caught error is reported), the
  controlled value, and whether that value is an object just made by \<^verbatim>\<open>new\<close>, which
  is then a reference no older value is identical to.
\<close>

definition centerValue ::
  "'tr engine \<Rightarrow> 'tr proxy \<Rightarrow> string \<Rightarrow> 'tr jsval \<Rightarrow> 'tr proxy \<times> 'tr jsval \<times> bool" where
  "centerValue E st prop v =
     (let rvs = reactViewState st;
          fallback = (\<lambda>e. (onError E (createProxyError ''set'' prop v
                              (''Error creating controlled center value: '' @ errorMessage e)) st,
                            v, False))
      in if isFinite (longitude rvs) \<or> isFinite (latitude rvs) then
           (case constructorOf v of
              None \<Rightarrow> (st, v, False)
            | Some c \<Rightarrow>
                (case coalesce E (longitude rvs) v ''lng'' of
                   Inl e \<Rightarrow> fallback e
                 | Inr a \<Rightarrow>
                     (case coalesce E (latitude rvs) v ''lat'' of
                        Inl e \<Rightarrow> fallback e
                      | Inr b \<Rightarrow>
                          (case construct E c a b of
                             Inl e \<Rightarrow> fallback e
                           | Inr obj \<Rightarrow> (st, obj, True)))))
         else (st, v, False))"

text \<open>
  \<^verbatim>\<open>let controlledValue = value\<close> and the chain of branches on \<^verbatim>\<open>prop\<close> that
  overrides it. A throw outside the inner \<^verbatim>\<open>try\<close> blocks (a getter of the controlled
  transform) leaves through the outer \<^verbatim>\<open>catch\<close> of the handler: \<open>Inl\<close>.
\<close>

definition controlledValueOf ::
  "'tr engine \<Rightarrow> 'tr proxy \<Rightarrow> string \<Rightarrow> 'tr jsval
     \<Rightarrow> thrown + ('tr proxy \<times> 'tr jsval \<times> bool)" where
  "controlledValueOf E st prop v =
     (let rvs = reactViewState st;
          unchanged = Inr (st, v, False);
          current = (case tr_get E (controlledTransform st) prop of
                       Inl e \<Rightarrow> Inl e
                     | Inr c \<Rightarrow> Inr (st, c, False))
      in if prop = ''center'' \<or> prop = ''_center'' then Inr (centerValue E st prop v)
         else if prop = ''zoom'' \<or> prop = ''_zoom'' \<or> prop = ''_seaLevelZoom'' then
           (if isFinite (zoom rvs) then current else unchanged)
         else if prop = ''_centerAltitude'' then
           (if isFinite (elevation rvs) then current else unchanged)
         else if prop = ''pitch'' \<or> prop = ''_pitch'' then
           (if isFinite (pitch rvs) then current else unchanged)
         else if prop = ''bearing'' \<or> prop = ''rotation'' \<or> prop = ''angle'' then
           (if isFinite (bearing rvs) then current else unchanged)
         else unchanged)"

text \<open>\<^verbatim>\<open>controlledValue !== value\<close>\<close>

definition differs :: "'tr jsval \<Rightarrow> bool \<Rightarrow> 'tr jsval \<Rightarrow> bool" where
  "differs controlledValue isNew v = (if isNew then True else \<not> strict_eq controlledValue v)"

text \<open>The branch for \<^verbatim>\<open>$reactViewState\<close>.\<close>

definition setReactViewState :: "'tr engine \<Rightarrow> 'tr proxy \<Rightarrow> 'tr jsval \<Rightarrow> 'tr proxy \<times> bool" where
  "setReactViewState E st v =
     (let st1 = st\<lparr>reactViewState := asViewState v\<rparr>
      in case applyViewStateToTransform E (controlledTransform st1) (reactViewState st1) of
           Inr c' \<Rightarrow> (st1\<lparr>controlledTransform := c'\<rparr>, True)
         | Inl e \<Rightarrow>
             (onError E (createProxyError ''set'' ''$reactViewState'' v
                 (''Error applying view state: '' @ errorMessage e)) st1,
              False))"

text \<open>
  The steps after the controlled value is known: clone on divergence, the write to the
  proposed transform, the write to the controlled transform.
\<close>

definition saveProposed ::
  "'tr engine \<Rightarrow> 'tr proxy \<Rightarrow> string \<Rightarrow> 'tr jsval \<Rightarrow> bool \<Rightarrow> 'tr proxy" where
  "saveProposed E st prop v diverged =
     (if internalUpdate st \<and> diverged then
        cloneIfAbsent E
          (\<lambda>e. createProxyError ''set'' prop v
                 (''Error cloning transform for proposed changes: '' @ errorMessage e)) st
      else st)"

definition writeProposed :: "'tr engine \<Rightarrow> 'tr proxy \<Rightarrow> string \<Rightarrow> 'tr jsval \<Rightarrow> 'tr proxy" where
  "writeProposed E st prop v =
     (case proposedTransform st of
        Some p \<Rightarrow>
          if internalUpdate st then
            (case tr_set E p prop v of
               Inr p' \<Rightarrow> st\<lparr>proposedTransform := Some p'\<rparr>
             | Inl e \<Rightarrow>
                 onError E (createProxyError ''set'' prop v
                   (''Error setting proposed transform property: '' @ errorMessage e)) st)
          else st
      | None \<Rightarrow> st)"

definition writeControlled ::
  "'tr engine \<Rightarrow> 'tr proxy \<Rightarrow> string \<Rightarrow> 'tr jsval \<Rightarrow> 'tr proxy \<times> bool" where
  "writeControlled E st prop controlledValue =
     (case tr_set E (controlledTransform st) prop controlledValue of
        Inr c' \<Rightarrow> (st\<lparr>controlledTransform := c'\<rparr>, True)
      | Inl e \<Rightarrow>
          (onError E (createProxyError ''set'' prop controlledValue
              (''Error setting controlled transform property: '' @ errorMessage e)) st,
           False))"

definition set_handler ::
  "'tr engine \<Rightarrow> 'tr proxy \<Rightarrow> string \<Rightarrow> 'tr jsval \<Rightarrow> 'tr proxy \<times> bool" where
  "set_handler E st prop v =
     (if \<not> isValidTransformProperty prop then
        (onError E (createProxyError ''set'' prop v (''Invalid property assignment: '' @ prop)) st,
         False)
      else if prop = ''$reactViewState'' then setReactViewState E st v
      else if prop = ''$proposedTransform'' then (st\<lparr>proposedTransform := asTransform v\<rparr>, True)
      else if prop = ''$internalUpdate'' then (st\<lparr>internalUpdate := asBoolean v\<rparr>, True)
      else
        (case controlledValueOf E st prop v of
           Inl e \<Rightarrow>
             (onError E (createProxyError ''set'' prop v
                 (''Unexpected error in proxy setter: '' @ errorMessage e)) st,
              False)
         | Inr (st1, controlledValue, isNew) \<Rightarrow>
             writeControlled E
               (writeProposed E
                  (saveProposed E st1 prop v (differs controlledValue isNew v)) prop v)
               prop controlledValue))"

subsection \<open>Vocabulary of the properties\<close>

text \<open>
  The camera properties whose branch of the set handler tests one declared field, and the
  declared field each is tested against.
\<close>

definition numericCameraProps :: "string list" where
  "numericCameraProps =
     [''zoom'', ''_zoom'', ''_seaLevelZoom'', ''_centerAltitude'', ''pitch'', ''_pitch'',
      ''bearing'', ''rotation'', ''angle'']"

definition declaredFor :: "ViewState \<Rightarrow> string \<Rightarrow> number option" where
  "declaredFor rvs prop =
     (if prop = ''zoom'' \<or> prop = ''_zoom'' \<or> prop = ''_seaLevelZoom'' then zoom rvs
      else if prop = ''_centerAltitude'' then elevation rvs
      else if prop = ''pitch'' \<or> prop = ''_pitch'' then pitch rvs
      else if prop = ''bearing'' \<or> prop = ''rotation'' \<or> prop = ''angle'' then bearing rvs
      else None)"

text \<open>All camera fields: the numeric ones and the two names of the center.\<close>

definition cameraProps :: "string list" where
  "cameraProps = ''center'' # ''_center'' # numericCameraProps"

text \<open>
  A law of the engine's accessors that the handlers rely on when they assign a property
  its own current value: \<^verbatim>\<open>t[p] = t[p]\<close> leaves \<open>t\<close> as it is (or throws).
\<close>

definition writeBackNeutral :: "'tr engine \<Rightarrow> string \<Rightarrow> bool" where
  "writeBackNeutral E prop =
     (\<forall>t c. tr_get E t prop = Inr c \<longrightarrow>
        (case tr_set E t prop c of Inr t' \<Rightarrow> t' = t | Inl e \<Rightarrow> True))"

text \<open>A sequence of writes through the proxy, in order.\<close>

definition engineWrites ::
  "'tr engine \<Rightarrow> 'tr proxy \<Rightarrow> (string \<times> 'tr jsval) list \<Rightarrow> 'tr proxy" where
  "engineWrites E st ws = foldl (\<lambda>s (p, v). fst (set_handler E s p v)) st ws"

text \<open>
  A camera field has no declared value when the test of its branch fails: for the center,
  neither longitude nor latitude is finite; for a numeric property, its declared field is
  not finite (absent, NaN or infinite).
\<close>

definition undeclared :: "ViewState \<Rightarrow> string \<Rightarrow> bool" where
  "undeclared rvs prop =
     (if prop = ''center'' \<or> prop = ''_center''
      then \<not> isFinite (longitude rvs) \<and> \<not> isFinite (latitude rvs)
      else \<not> isFinite (declaredFor rvs prop))"

text \<open>
  The coordinate the specification asks for in a rewritten center: the declared one where
  it is a finite number, the written one otherwise.
\<close>

definition substituted :: "number option \<Rightarrow> 'tr jsval \<Rightarrow> 'tr jsval" where
  "substituted declared written =
     (case declared of Some (Fin x) \<Rightarrow> JNum (Fin x) | _ \<Rightarrow> written)"

subsection \<open>One engine-driven mutation as a trace of accesses\<close>

text \<open>
  During a mutation the engine reads and writes properties of the proxy. \<open>perform\<close> is
  the state after one access, \<open>run\<close> after a list of them.
\<close>

datatype 'tr access = Read string | Write string "'tr jsval"

fun propOf :: "'tr access \<Rightarrow> string" where
  "propOf (Read p) = p"
| "propOf (Write p v) = p"

fun perform :: "'tr engine \<Rightarrow> 'tr proxy \<Rightarrow> 'tr access \<Rightarrow> 'tr proxy" where
  "perform E st (Read p) = fst (get_handler E st p)"
| "perform E st (Write p v) = fst (set_handler E st p v)"

definition run :: "'tr engine \<Rightarrow> 'tr proxy \<Rightarrow> 'tr access list \<Rightarrow> 'tr proxy" where
  "run E st as = foldl (perform E) st as"

text \<open>The three properties the proxy adds; its owner reads and writes them.\<close>

definition specialProps :: "string list" where
  "specialProps = [''$reactViewState'', ''$proposedTransform'', ''$internalUpdate'']"

text \<open>
  \<open>overridden\<close>: the access is a write for which the set handler finds
  \<^verbatim>\<open>controlledValue !== value\<close>. \<open>constrainedRead\<close>: the access is a read of
  \<^verbatim>\<open>_translateCameraConstrained\<close> while the view state is controlled. These are the two
  tests that guard \<^verbatim>\<open>controlledTransform.clone()\<close> (both also need
  \<^verbatim>\<open>internalUpdate\<close>).
\<close>

fun overridden :: "'tr engine \<Rightarrow> 'tr proxy \<Rightarrow> 'tr access \<Rightarrow> bool" where
  "overridden E st (Read p) = False"
| "overridden E st (Write p v) =
     (case controlledValueOf E st p v of
        Inr (st1, controlledValue, isNew) \<Rightarrow> differs controlledValue isNew v
      | Inl e \<Rightarrow> False)"

fun constrainedRead :: "'tr engine \<Rightarrow> 'tr proxy \<Rightarrow> 'tr access \<Rightarrow> bool" where
  "constrainedRead E st (Read p) =
     (p = ''_translateCameraConstrained'' \<and> isViewStateControlled E (reactViewState st))"
| "constrainedRead E st (Write p v) = False"

definition clonesAt :: "'tr engine \<Rightarrow> 'tr proxy \<Rightarrow> 'tr access \<Rightarrow> bool" where
  "clonesAt E st a = (overridden E st a \<or> constrainedRead E st a)"

text \<open>\<open>anyAccess P\<close>: some access of the trace satisfies \<open>P\<close> in the state it meets.\<close>

fun anyAccess ::
  "('tr engine \<Rightarrow> 'tr proxy \<Rightarrow> 'tr access \<Rightarrow> bool) \<Rightarrow> 'tr engine \<Rightarrow> 'tr proxy
     \<Rightarrow> 'tr access list \<Rightarrow> bool" where
  "anyAccess P E st [] = False"
| "anyAccess P E st (a # as) = (P E st a \<or> anyAccess P E (perform E st a) as)"

text \<open>A proposed transform exists; \<^verbatim>\<open>clone()\<close> returns normally.\<close>

definition hasProposed :: "'tr proxy \<Rightarrow> bool" where
  "hasProposed st = (case proposedTransform st of None \<Rightarrow> False | Some p \<Rightarrow> True)"

definition canClone :: "'tr engine \<Rightarrow> 'tr \<Rightarrow> bool" where
  "canClone E t = (case tr_clone E t of Inr c \<Rightarrow> True | Inl e \<Rightarrow> False)"

text \<open>
  The invariant as the specification words it, for the accesses of one mutation: a
  proposed transform exists if and only if a mutation is in progress and at least one
  write was overridden.
\<close>

definition proposedIffOverridden :: "'tr engine \<Rightarrow> 'tr proxy \<Rightarrow> 'tr access list \<Rightarrow> bool" where
  "proposedIffOverridden E st as =
     (hasProposed (run E st as)
        = (internalUpdate (run E st as) \<and> anyAccess overridden E st as))"

text \<open>The state of the get handler after its block for \<^verbatim>\<open>_translateCameraConstrained\<close>.\<close>

definition afterConstrained :: "'tr engine \<Rightarrow> 'tr proxy \<Rightarrow> string \<Rightarrow> 'tr proxy" where
  "afterConstrained E st p =
     (if internalUpdate st \<and> p = ''_translateCameraConstrained''
                   \<and> isViewStateControlled E (reactViewState st)
                then cloneIfAbsent E
                       (\<lambda>e. createProxyError ''clone'' ''_translateCameraConstrained'' Undefined
                              (''Error cloning transform: '' @ errorMessage e)) st
                else st)"

subsection \<open>A plain object as transform, for concrete runs\<close>

text \<open>
  \<^verbatim>\<open>createProxyTransform\<close> accepts any object. The concrete runs below use a plain
  object: every property is a data property, \<^verbatim>\<open>_setZoom(z)\<close> stores \<^verbatim>\<open>_zoom\<close>,
  the other methods do nothing, \<^verbatim>\<open>clone()\<close> copies, a constructor \<open>c\<close> builds an
  object with the properties \<^verbatim>\<open>lng\<close> and \<^verbatim>\<open>lat\<close>, and nothing throws.
\<close>

datatype plain = Plain "string \<Rightarrow> plain jsval"

fun plain_get :: "plain \<Rightarrow> string \<Rightarrow> thrown + plain jsval" where
  "plain_get (Plain f) p = Inr (f p)"

fun plain_set :: "plain \<Rightarrow> string \<Rightarrow> plain jsval \<Rightarrow> thrown + plain" where
  "plain_set (Plain f) p v = Inr (Plain (f(p := v)))"

fun plain_call :: "plain \<Rightarrow> string \<Rightarrow> plain jsval list \<Rightarrow> thrown + plain" where
  "plain_call (Plain f) m args =
     (if m = ''_setZoom'' then
        Inr (Plain (f(''_zoom'' := (case args of [] \<Rightarrow> Undefined | z # zs \<Rightarrow> z))))
      else Inr (Plain f))"

text \<open>
  Modelled from the spec: \<^verbatim>\<open>isViewStateControlled\<close> and
  \<^verbatim>\<open>applyViewStateToTransform\<close> of \<^verbatim>\<open>../utils/transform\<close>, which is not among the
  sources. The specification calls a field declared when its value is present and not the
  NaN sentinel, and asks that the committed value of a declared field equal the declared
  value. So a view state counts as controlled when longitude, latitude, zoom, pitch or
  bearing is finite, and applying a view state assigns each finite zoom, pitch and bearing
  to the transform.
\<close>

definition controlledBySpec :: "ViewState \<Rightarrow> bool" where
  "controlledBySpec vs =
     (isFinite (longitude vs) \<or> isFinite (latitude vs) \<or> isFinite (zoom vs)
      \<or> isFinite (pitch vs) \<or> isFinite (bearing vs))"

fun assignDeclared :: "string \<Rightarrow> number option \<Rightarrow> plain \<Rightarrow> plain" where
  "assignDeclared p (Some (Fin x)) (Plain f) = Plain (f(p := JNum (Fin x)))"
| "assignDeclared p d t = t"

definition applyBySpec :: "plain \<Rightarrow> ViewState \<Rightarrow> thrown + plain" where
  "applyBySpec t vs =
     Inr (assignDeclared ''bearing'' (bearing vs)
            (assignDeclared ''pitch'' (pitch vs) (assignDeclared ''zoom'' (zoom vs) t)))"

definition plainEngine :: "plain engine" where
  "plainEngine =
     \<lparr>onErrorGiven = True, tr_get = plain_get, tr_set = plain_set, tr_call = plain_call,
      tr_clone = (\<lambda>t. Inr t),
      construct = (\<lambda>c a b. Inr (JObject (Some c) [(''lng'', a), (''lat'', b)])),
      isViewStateControlled = controlledBySpec,
      applyViewStateToTransform = applyBySpec\<rparr>"

text \<open>The same engine with a coordinate class whose constructor rejects its arguments.\<close>

definition rejectingEngine :: "plain engine" where
  "rejectingEngine =
     plainEngine\<lparr>construct := (\<lambda>c a b. Inl (JsError ''Invalid LngLat object''))\<rparr>"

text \<open>
  The scenario of the specification: longitude -122.4, latitude 37.8 and zoom 14 are
  declared, and the committed transform holds zoom 14.
\<close>

definition camera14 :: plain where
  "camera14 = Plain ((\<lambda>p. Undefined)(''zoom'' := JNum (Fin 14)))"

definition declared14 :: ViewState where
  "declared14 =
     \<lparr>longitude = Some (Fin (-122.4)), latitude = Some (Fin 37.8), zoom = Some (Fin 14),
      pitch = None, bearing = None, elevation = None\<rparr>"

definition proxy14 :: "bool \<Rightarrow> plain proxy" where
  "proxy14 inProgress =
     \<lparr>internalUpdate = inProgress, reactViewState = declared14,
      controlledTransform = camera14, proposedTransform = None, reported = []\<rparr>"

text \<open>The same transform with nothing declared.\<close>

definition proxyFree :: "bool \<Rightarrow> plain proxy" where
  "proxyFree inProgress =
     \<lparr>internalUpdate = inProgress, reactViewState = emptyViewState,
      controlledTransform = camera14, proposedTransform = None, reported = []\<rparr>"

text \<open>A transform with a property outside the recognized set.\<close>

definition cameraWithWidth :: plain where
  "cameraWithWidth = Plain ((\<lambda>p. Undefined)(''width'' := JNum (Fin 800)))"

definition proxyWidth :: "plain proxy" where
  "proxyWidth =
     \<lparr>internalUpdate = False, reactViewState = emptyViewState,
      controlledTransform = cameraWithWidth, proposedTransform = None, reported = []\<rparr>"

text \<open>
  The scenario after the engine tried zoom 15: the committed transform holds 14, the
  proposed one 15. \<open>proxyFreeDiverged\<close> is such a state with nothing declared.
\<close>

definition camera15 :: plain where
  "camera15 = Plain ((\<lambda>p. Undefined)(''zoom'' := JNum (Fin 15)))"

definition proxyDiverged :: "bool \<Rightarrow> plain proxy" where
  "proxyDiverged inProgress =
     \<lparr>internalUpdate = inProgress, reactViewState = declared14,
      controlledTransform = camera14, proposedTransform = Some camera15, reported = []\<rparr>"

definition proxyFreeDiverged :: "plain proxy" where
  "proxyFreeDiverged =
     \<lparr>internalUpdate = True, reactViewState = emptyViewState,
      controlledTransform = camera14, proposedTransform = Some camera15, reported = []\<rparr>"

text \<open>A coordinate the engine writes, and a view state that declares the latitude only.\<close>

definition writtenCenter :: "plain jsval" where
  "writtenCenter = JObject (Some ''LngLat'') [(''lng'', JNum (Fin 10)), (''lat'', JNum (Fin 20))]"

definition declaredLatitude :: ViewState where
  "declaredLatitude = emptyViewState\<lparr>latitude := Some (Fin 37.8)\<rparr>"

definition proxyLatitude :: "plain proxy" where
  "proxyLatitude =
     \<lparr>internalUpdate = False, reactViewState = declaredLatitude,
      controlledTransform = camera14, proposedTransform = None, reported = []\<rparr>"

text \<open>
  An engine whose \<^verbatim>\<open>_setZoom\<close> throws on a transform marked frozen, and a state whose
  proposed transform is so marked while nothing is declared.
\<close>

fun guarded_call :: "plain \<Rightarrow> string \<Rightarrow> plain jsval list \<Rightarrow> thrown + plain" where
  "guarded_call (Plain f) m args =
     (if m = ''_setZoom'' \<and> f ''_frozen'' = JBool True
      then Inl (JsError ''transform is frozen'')
      else plain_call (Plain f) m args)"

definition guardedEngine :: "plain engine" where
  "guardedEngine = plainEngine\<lparr>tr_call := guarded_call\<rparr>"

definition cameraFrozen :: plain where
  "cameraFrozen =
     Plain ((\<lambda>p. Undefined)(''zoom'' := JNum (Fin 15), ''_frozen'' := JBool True))"

definition proxyFrozenProposed :: "plain proxy" where
  "proxyFrozenProposed =
     \<lparr>internalUpdate = True, reactViewState = emptyViewState,
      controlledTransform = camera14, proposedTransform = Some cameraFrozen, reported = []\<rparr>"

section \<open>set-globals.ts\<close>

text \<open>
  The values of global settings; no transform occurs among them.
\<close>

type_synonym val = "unit jsval"

text \<open>\<^verbatim>\<open>GlobalSettingsError\<close> and \<^verbatim>\<open>createGlobalSettingsError\<close>.\<close>

record GlobalSettingsError =
  gs_setting :: string
  gs_value :: val
  gs_message :: string

definition createGlobalSettingsError :: "string \<Rightarrow> val \<Rightarrow> string \<Rightarrow> GlobalSettingsError" where
  "createGlobalSettingsError setting v message =
     \<lparr>gs_setting = setting, gs_value = v, gs_message = message\<rparr>"

definition globalSettings :: "string list" where
  "globalSettings =
     [''baseApiUrl'', ''maxParallelImageRequests'', ''workerClass'', ''workerCount'', ''workerUrl'']"

definition DEFAULT_RTL_PLUGIN_URL :: string where
  "DEFAULT_RTL_PLUGIN_URL =
     ''https://api.mapbox.com/mapbox-gl-js/plugins/mapbox-gl-rtl-text/v0.2.3/mapbox-gl-rtl-text.js''"

definition DEFAULT_RTL_TIMEOUT :: nat where
  "DEFAULT_RTL_TIMEOUT = 10000"

text \<open>
  A whole number in decimal, for \<^verbatim>\<open>${RTLPluginTimeout}ms\<close>. The timeout is taken as a
  whole number of milliseconds.
\<close>

fun decimal :: "nat \<Rightarrow> string" where
  "decimal n =
     (if n < 10 then [''0123456789'' ! n]
      else decimal (n div 10) @ [''0123456789'' ! (n mod 10)])"

declare decimal.simps [simp del]

definition validateGlobalSetting :: "string \<Rightarrow> val \<Rightarrow> bool" where
  "validateGlobalSetting key v =
     (if key = ''maxParallelImageRequests'' \<or> key = ''workerCount'' then
        (case v of JNum (Fin x) \<Rightarrow> 0 < x \<and> x = of_int \<lfloor>x\<rfloor> | _ \<Rightarrow> False)
      else if key = ''baseApiUrl'' \<or> key = ''workerUrl'' then
        (case v of JStr s \<Rightarrow> s \<noteq> [] | _ \<Rightarrow> False)
      else if key = ''workerClass'' then (v \<noteq> Null \<and> v \<noteq> Undefined)
      else True)"

text \<open>
  A callback the caller supplies either returns or throws. \<^verbatim>\<open>RTLTextPlugin\<close> is a URL
  or \<^verbatim>\<open>false\<close>; an absent field of \<^verbatim>\<open>props\<close> is \<open>None\<close>. \<open>plainSettings\<close> holds
  the entries of \<^verbatim>\<open>props\<close> under the five names of \<open>globalSettings\<close>
  (\<^verbatim>\<open>key in props\<close>).
\<close>

datatype callback = Returns | Throws thrown

datatype rtlSetting = PluginUrl string | PluginOff

record GlobalSettings =
  plainSettings :: "(string \<times> val) list"
  RTLTextPlugin :: "rtlSetting option"
  RTLPluginTimeout :: "nat option"
  onRTLPluginError :: "callback option"

text \<open>
  The map library, as \<^verbatim>\<open>setGlobals\<close> uses it: \<open>lib_assign key\<close> says whether
  \<^verbatim>\<open>mapLib[key] = value\<close> throws; \<open>lib_getRTLTextPluginStatus\<close> is \<open>None\<close> when the
  method is missing, else what a call returns or throws; \<open>lib_setRTLTextPlugin\<close> is
  \<open>None\<close> when the method is missing, else how the loader behaves. A loader throws at
  once, or calls back with or without an error, or never calls back. Whether its callback
  comes before the timer fires is decided by the event loop, so it is part of the
  loader's behaviour here (\<open>arrival\<close>); no clock is modelled.
\<close>

datatype arrival = BeforeTimer | AfterTimer

datatype loader = LoaderThrows thrown | LoaderCallsBack "thrown option" arrival | LoaderSilent

record MapLib =
  lib_assign :: "string \<Rightarrow> thrown option"
  lib_getRTLTextPluginStatus :: "(thrown + string) option"
  lib_setRTLTextPlugin :: "loader option"

datatype mapLibArg = NotAnObject val | Lib MapLib

text \<open>What a run does to the outside, in order.\<close>

datatype event =
    Assigned string val
  | CalledOnError GlobalSettingsError
  | CalledOnRTLPluginError GlobalSettingsError
  | TimerStarted nat
  | PluginRequested string bool

text \<open>\<^verbatim>\<open>cb?.(error)\<close>: the call made, and what it throws.\<close>

definition callOptional :: "callback option \<Rightarrow> event \<Rightarrow> event list \<times> thrown option" where
  "callOptional cb ev =
     (case cb of
        None \<Rightarrow> ([], None)
      | Some Returns \<Rightarrow> ([ev], None)
      | Some (Throws e) \<Rightarrow> ([ev], Some e))"

text \<open>The defaults of the destructuring in \<^verbatim>\<open>setRTLTextPlugin\<close>.\<close>

definition rtlUrl :: "GlobalSettings \<Rightarrow> string" where
  "rtlUrl props =
     (case RTLTextPlugin props of Some (PluginUrl u) \<Rightarrow> u | _ \<Rightarrow> DEFAULT_RTL_PLUGIN_URL)"

definition rtlTimeout :: "GlobalSettings \<Rightarrow> nat" where
  "rtlTimeout props =
     (case RTLPluginTimeout props of Some t \<Rightarrow> t | None \<Rightarrow> DEFAULT_RTL_TIMEOUT)"

text \<open>
  \<^verbatim>\<open>await Promise.race([loadPromise, timeoutPromise])\<close>: \<open>None\<close> when the load resolves
  first, else the error the \<^verbatim>\<open>await\<close> throws. A throw of the loader inside the
  promise executor rejects \<open>loadPromise\<close> at once.
\<close>

definition timeoutError :: "nat \<Rightarrow> thrown" where
  "timeoutError t = JsError (''RTL plugin loading timeout after '' @ decimal t @ ''ms'')"

definition raceOutcome :: "loader \<Rightarrow> nat \<Rightarrow> thrown option" where
  "raceOutcome l t =
     (case l of
        LoaderThrows e \<Rightarrow> Some e
      | LoaderCallsBack r BeforeTimer \<Rightarrow> r
      | LoaderCallsBack r AfterTimer \<Rightarrow> Some (timeoutError t)
      | LoaderSilent \<Rightarrow> Some (timeoutError t))"

text \<open>The two errors \<^verbatim>\<open>setRTLTextPlugin\<close> builds, and its \<^verbatim>\<open>catch\<close> block.\<close>

definition rtlError :: "GlobalSettings \<Rightarrow> thrown \<Rightarrow> GlobalSettingsError" where
  "rtlError props e =
     createGlobalSettingsError ''RTLTextPlugin'' (JStr (rtlUrl props))
       (''Failed to load RTL text plugin: '' @ errorMessage e)"

definition missingApiError :: "GlobalSettings \<Rightarrow> GlobalSettingsError" where
  "missingApiError props =
     createGlobalSettingsError ''RTLTextPlugin'' (JStr (rtlUrl props))
       ''RTL text plugin methods not available on mapLib''"

definition reportFailure ::
  "GlobalSettings \<Rightarrow> callback option \<Rightarrow> thrown \<Rightarrow> event list \<times> thrown option" where
  "reportFailure props onErr e =
     (let custom = (case onRTLPluginError props of
                      None \<Rightarrow> []
                    | Some cb \<Rightarrow> [CalledOnRTLPluginError (rtlError props e)]);
          (evs, thr) = callOptional onErr (CalledOnError (rtlError props e))
      in (custom @ evs, thr))"

text \<open>
  The run of the \<^verbatim>\<open>async\<close> function: what it does before its \<^verbatim>\<open>await\<close> (while
  \<^verbatim>\<open>setGlobals\<close> is still on the stack), what it does after, and whether its promise
  is rejected (\<open>settled\<close>).
\<close>

record asyncRun =
  settled :: "thrown option"
  beforeAwait :: "event list"
  afterAwait :: "event list"

definition setRTLTextPlugin :: "MapLib \<Rightarrow> GlobalSettings \<Rightarrow> callback option \<Rightarrow> asyncRun" where
  "setRTLTextPlugin mapLib props onErr =
     (if RTLTextPlugin props = Some PluginOff then
        \<lparr>settled = None, beforeAwait = [], afterAwait = []\<rparr>
      else
        (case (lib_getRTLTextPluginStatus mapLib, lib_setRTLTextPlugin mapLib) of
           (Some status, Some l) \<Rightarrow>
             (case status of
                Inl e \<Rightarrow>
                  (let (evs, thr) = reportFailure props onErr e
                   in \<lparr>settled = thr, beforeAwait = evs, afterAwait = []\<rparr>)
              | Inr s \<Rightarrow>
                  if s \<noteq> ''unavailable'' then
                    \<lparr>settled = None, beforeAwait = [], afterAwait = []\<rparr>
                  else
                    (let started = [TimerStarted (rtlTimeout props),
                                    PluginRequested (rtlUrl props) True]
                     in case raceOutcome l (rtlTimeout props) of
                          None \<Rightarrow> \<lparr>settled = None, beforeAwait = started, afterAwait = []\<rparr>
                        | Some e \<Rightarrow>
                            (let (evs, thr) = reportFailure props onErr e
                             in \<lparr>settled = thr, beforeAwait = started, afterAwait = evs\<rparr>)))
         | _ \<Rightarrow>
             (let (evs, thr) = callOptional onErr (CalledOnError (missingApiError props))
              in \<lparr>settled = thr, beforeAwait = evs, afterAwait = []\<rparr>)))"

text \<open>
  One turn of the loop over \<open>globalSettings\<close>, for a key that is in \<^verbatim>\<open>props\<close>. The
  \<^verbatim>\<open>onError\<close> call of the \<^verbatim>\<open>catch\<close> block is outside any \<^verbatim>\<open>try\<close>. \<open>toStr\<close> is
  JavaScript's \<^verbatim>\<open>String(value)\<close>.
\<close>

definition applySetting ::
  "MapLib \<Rightarrow> callback option \<Rightarrow> (val \<Rightarrow> string) \<Rightarrow> string \<Rightarrow> val
     \<Rightarrow> event list \<times> thrown option" where
  "applySetting mapLib onErr toStr key v =
     (let (evs, thr) =
            (if \<not> validateGlobalSetting key v then
               callOptional onErr
                 (CalledOnError (createGlobalSettingsError key v
                    (''Invalid value for '' @ key @ '': '' @ toStr v)))
             else
               (case lib_assign mapLib key of
                  None \<Rightarrow> ([Assigned key v], None)
                | Some e \<Rightarrow> ([], Some e)))
      in case thr of
           None \<Rightarrow> (evs, None)
         | Some e \<Rightarrow>
             (let (evs', thr') =
                    callOptional onErr
                      (CalledOnError (createGlobalSettingsError key v
                         (''Failed to set '' @ key @ '': '' @ errorMessage e)))
              in (evs @ evs', thr')))"

fun applySettings ::
  "MapLib \<Rightarrow> callback option \<Rightarrow> (val \<Rightarrow> string) \<Rightarrow> GlobalSettings \<Rightarrow> string list
     \<Rightarrow> event list \<times> thrown option" where
  "applySettings mapLib onErr toStr props [] = ([], None)"
| "applySettings mapLib onErr toStr props (key # keys) =
     (case map_of (plainSettings props) key of
        None \<Rightarrow> applySettings mapLib onErr toStr props keys
      | Some v \<Rightarrow>
          (case applySetting mapLib onErr toStr key v of
             (evs, Some e) \<Rightarrow> (evs, Some e)
           | (evs, None) \<Rightarrow>
               (let (evs', thr) = applySettings mapLib onErr toStr props keys
                in (evs @ evs', thr))))"

text \<open>
  \<^verbatim>\<open>setGlobals\<close>: what it throws (\<open>thrownOut\<close>), what it does before it returns
  (\<open>events\<close>) and what the pending plugin load does afterwards (\<open>laterEvents\<close>). The
  promise of \<^verbatim>\<open>setRTLTextPlugin\<close> gets an empty \<^verbatim>\<open>catch\<close> handler, so its rejection
  goes nowhere.
\<close>

record globalsRun =
  thrownOut :: "thrown option"
  events :: "event list"
  laterEvents :: "event list"

definition setGlobals ::
  "mapLibArg \<Rightarrow> GlobalSettings \<Rightarrow> callback option \<Rightarrow> (val \<Rightarrow> string) \<Rightarrow> globalsRun" where
  "setGlobals mapLib props onErr toStr =
     (case mapLib of
        NotAnObject v \<Rightarrow>
          (let (evs, thr) =
                 callOptional onErr
                   (CalledOnError (createGlobalSettingsError ''mapLib'' v
                      ''Invalid mapLib: expected object''))
           in \<lparr>thrownOut = thr, events = evs, laterEvents = []\<rparr>)
      | Lib lib \<Rightarrow>
          (case applySettings lib onErr toStr props globalSettings of
             (evs, Some e) \<Rightarrow> \<lparr>thrownOut = Some e, events = evs, laterEvents = []\<rparr>
           | (evs, None) \<Rightarrow>
               (let r = setRTLTextPlugin lib props onErr
                in \<lparr>thrownOut = None, events = evs @ beforeAwait r,
                    laterEvents = afterAwait r\<rparr>)))"

text \<open>Map libraries and settings for concrete runs.\<close>

definition libWithoutPlugin :: MapLib where
  "libWithoutPlugin =
     \<lparr>lib_assign = (\<lambda>key. None), lib_getRTLTextPluginStatus = None,
      lib_setRTLTextPlugin = None\<rparr>"

definition libWithPlugin :: "loader \<Rightarrow> MapLib" where
  "libWithPlugin l =
     \<lparr>lib_assign = (\<lambda>key. None), lib_getRTLTextPluginStatus = Some (Inr ''unavailable''),
      lib_setRTLTextPlugin = Some l\<rparr>"

definition propsCustomHandler :: GlobalSettings where
  "propsCustomHandler =
     \<lparr>plainSettings = [], RTLTextPlugin = None, RTLPluginTimeout = None,
      onRTLPluginError = Some Returns\<rparr>"

section \<open>Properties of arePointsEqual\<close>




section \<open>Properties of the set handler\<close>

subsection \<open>Frame lemmas\<close>

lemma onError_simps [simp]:
  "controlledTransform (onError E e st) = controlledTransform st"
  "proposedTransform (onError E e st) = proposedTransform st"
  "internalUpdate (onError E e st) = internalUpdate st"
  "reactViewState (onError E e st) = reactViewState st"
  by (simp_all add: onError_def)

lemma cloneIfAbsent_simps [simp]:
  "controlledTransform (cloneIfAbsent E f st) = controlledTransform st"
  "internalUpdate (cloneIfAbsent E f st) = internalUpdate st"
  "reactViewState (cloneIfAbsent E f st) = reactViewState st"
  by (simp_all add: cloneIfAbsent_def split: option.splits sum.splits)

lemma saveProposed_simps [simp]:
  "controlledTransform (saveProposed E st prop v d) = controlledTransform st"
  "internalUpdate (saveProposed E st prop v d) = internalUpdate st"
  "reactViewState (saveProposed E st prop v d) = reactViewState st"
  by (simp_all add: saveProposed_def)

lemma writeProposed_simps [simp]:
  "controlledTransform (writeProposed E st prop v) = controlledTransform st"
  "internalUpdate (writeProposed E st prop v) = internalUpdate st"
  "reactViewState (writeProposed E st prop v) = reactViewState st"
  by (simp_all add: writeProposed_def split: option.splits sum.splits)

lemma writeControlled_simps [simp]:
  "internalUpdate (fst (writeControlled E st prop v)) = internalUpdate st"
  "reactViewState (fst (writeControlled E st prop v)) = reactViewState st"
  "proposedTransform (fst (writeControlled E st prop v)) = proposedTransform st"
  by (simp_all add: writeControlled_def split: option.splits sum.splits)


lemma numeric_cases:
  "prop \<in> set numericCameraProps \<longleftrightarrow>
     prop = ''zoom'' \<or> prop = ''_zoom'' \<or> prop = ''_seaLevelZoom'' \<or> prop = ''_centerAltitude''
     \<or> prop = ''pitch'' \<or> prop = ''_pitch'' \<or> prop = ''bearing'' \<or> prop = ''rotation''
     \<or> prop = ''angle''"
  by (simp add: numericCameraProps_def)

lemma numeric_not_special:
  "prop \<in> set numericCameraProps \<Longrightarrow>
     prop \<noteq> ''$reactViewState'' \<and> prop \<noteq> ''$proposedTransform'' \<and> prop \<noteq> ''$internalUpdate''
     \<and> prop \<noteq> ''center'' \<and> prop \<noteq> ''_center''"
  unfolding numeric_cases by (elim disjE) simp_all


lemma controlledValueOf_declared:
  assumes "prop \<in> set numericCameraProps" "isFinite (declaredFor (reactViewState st) prop)"
  shows "controlledValueOf E st prop v =
           (case tr_get E (controlledTransform st) prop of Inl e \<Rightarrow> Inl e | Inr c \<Rightarrow> Inr (st, c, False))"
  using assms unfolding numeric_cases
  by (elim disjE) (simp_all add: controlledValueOf_def declaredFor_def)

lemma controlledValueOf_undeclared:
  assumes "prop \<in> set numericCameraProps" "\<not> isFinite (declaredFor (reactViewState st) prop)"
  shows "controlledValueOf E st prop v = Inr (st, v, False)"
  using assms unfolding numeric_cases
  by (elim disjE) (simp_all add: controlledValueOf_def declaredFor_def)

lemma set_handler_field:
  assumes "prop \<noteq> ''$reactViewState''" "prop \<noteq> ''$proposedTransform''" "prop \<noteq> ''$internalUpdate''"
  shows "set_handler E st prop v =
     (case controlledValueOf E st prop v of
           Inl e \<Rightarrow>
             (onError E (createProxyError ''set'' prop v
                 (''Unexpected error in proxy setter: '' @ errorMessage e)) st,
              False)
         | Inr (st1, controlledValue, isNew) \<Rightarrow>
             writeControlled E
               (writeProposed E
                  (saveProposed E st1 prop v (differs controlledValue isNew v)) prop v)
               prop controlledValue)"
  using assms by (simp add: set_handler_def isValidTransformProperty_def)

lemma set_handler_numeric:
  assumes "prop \<in> set numericCameraProps"
  shows "set_handler E st prop v =
     (case controlledValueOf E st prop v of
           Inl e \<Rightarrow>
             (onError E (createProxyError ''set'' prop v
                 (''Unexpected error in proxy setter: '' @ errorMessage e)) st,
              False)
         | Inr (st1, controlledValue, isNew) \<Rightarrow>
             writeControlled E
               (writeProposed E
                  (saveProposed E st1 prop v (differs controlledValue isNew v)) prop v)
               prop controlledValue)"
  using numeric_not_special[OF assms] by (simp add: set_handler_field)


lemma declared_write_step:
  assumes "prop \<in> set numericCameraProps" "isFinite (declaredFor (reactViewState st) prop)"
    "writeBackNeutral E prop"
  shows "controlledTransform (fst (set_handler E st prop v)) = controlledTransform st"
proof (cases "tr_get E (controlledTransform st) prop")
  case (Inl e)
  then show ?thesis
    by (simp add: set_handler_numeric[OF assms(1)] controlledValueOf_declared[OF assms(1,2)])
next
  case (Inr c)
  with assms(3) have "case tr_set E (controlledTransform st) prop c of Inr t' \<Rightarrow> t' = controlledTransform st | Inl e \<Rightarrow> True"
    by (simp add: writeBackNeutral_def)
  with Inr show ?thesis
    by (simp add: set_handler_numeric[OF assms(1)] controlledValueOf_declared[OF assms(1,2)]
        writeControlled_def split: sum.splits)
qed

lemma set_handler_numeric_frame:
  assumes "prop \<in> set numericCameraProps"
  shows "reactViewState (fst (set_handler E st prop v)) = reactViewState st"
    "internalUpdate (fst (set_handler E st prop v)) = internalUpdate st"
proof -
  have "controlledValueOf E st prop v = Inr (st, v, False)
      \<or> controlledValueOf E st prop v =
           (case tr_get E (controlledTransform st) prop of Inl e \<Rightarrow> Inl e | Inr c \<Rightarrow> Inr (st, c, False))"
    using controlledValueOf_declared[OF assms] controlledValueOf_undeclared[OF assms] by blast
  then show "reactViewState (fst (set_handler E st prop v)) = reactViewState st"
    "internalUpdate (fst (set_handler E st prop v)) = internalUpdate st"
    by (auto simp: set_handler_numeric[OF assms] split: sum.splits)
qed


lemma engineWrites_Nil: "engineWrites E st [] = st"
  by (simp add: engineWrites_def)

lemma engineWrites_Cons:
  "engineWrites E st ((p, v) # ws) = engineWrites E (fst (set_handler E st p v)) ws"
  by (simp add: engineWrites_def)

lemma declared_writes_frame:
  assumes "\<forall>w \<in> set ws. fst w \<in> set numericCameraProps
              \<and> isFinite (declaredFor (reactViewState st) (fst w)) \<and> writeBackNeutral E (fst w)"
  shows "controlledTransform (engineWrites E st ws) = controlledTransform st
       \<and> reactViewState (engineWrites E st ws) = reactViewState st
       \<and> internalUpdate (engineWrites E st ws) = internalUpdate st"
  using assms
proof (induction ws arbitrary: st)
  case Nil
  then show ?case by (simp add: engineWrites_Nil)
next
  case (Cons w ws)
  obtain p v where w: "w = (p, v)" by (cases w)
  let ?s = "fst (set_handler E st p v)"
  from Cons.prems w have p: "p \<in> set numericCameraProps"
    "isFinite (declaredFor (reactViewState st) p)" "writeBackNeutral E p" by simp_all
  have rvs: "reactViewState ?s = reactViewState st"
    and iu: "internalUpdate ?s = internalUpdate st"
    by (rule set_handler_numeric_frame[OF p(1)])+
  have ct: "controlledTransform ?s = controlledTransform st" by (rule declared_write_step[OF p])
  have "\<forall>w \<in> set ws. fst w \<in> set numericCameraProps
              \<and> isFinite (declaredFor (reactViewState ?s) (fst w)) \<and> writeBackNeutral E (fst w)"
    using Cons.prems rvs by simp
  from Cons.IH[OF this] show ?case
    by (simp add: w engineWrites_Cons rvs ct iu)
qed


lemma writeBackNeutral_plain: "writeBackNeutral plainEngine prop"
proof -
  have "plain_set t prop c = Inr t" if "plain_get t prop = Inr c" for t c
  proof (cases t)
    case (Plain f)
    with that have "f prop = c" by simp
    then have "f(prop := c) = f" by auto
    with Plain show ?thesis by simp
  qed
  then show ?thesis by (simp add: writeBackNeutral_def plainEngine_def)
qed

text \<open>
  Claim C1. A write through the set handler to a numeric camera property (zoom, pitch,
  bearing, center altitude and their aliases) whose declared value is a finite number
  assigns the committed transform its own current value. So after any sequence of such
  writes the committed transform is the one before the sequence, and a committed value
  that was equal to the declared value \<open>d\<close> is still exactly \<open>d\<close>. This holds whether or
  not \<^verbatim>\<open>$internalUpdate\<close> is set, for every engine whose accessors leave a transform as
  it is when a property is assigned its current value.
\<close>

theorem declared_field_supremacy:
  assumes "\<forall>w \<in> set ws. fst w \<in> set numericCameraProps
              \<and> isFinite (declaredFor (reactViewState st) (fst w)) \<and> writeBackNeutral E (fst w)"
    and "declaredFor (reactViewState st) prop = Some d"
    and "tr_get E (controlledTransform st) prop = Inr (JNum d)"
  shows "controlledTransform (engineWrites E st ws) = controlledTransform st
       \<and> declaredFor (reactViewState (engineWrites E st ws)) prop = Some d
       \<and> tr_get E (controlledTransform (engineWrites E st ws)) prop = Inr (JNum d)"
  using declared_writes_frame[OF assms(1)] assms(2,3) by simp

theorem declared_field_supremacy_witness:
  "controlledTransform
     (engineWrites plainEngine (proxy14 True)
        [(''zoom'', JNum (Fin 15)), (''_zoom'', JNum (Fin 16)), (''zoom'', JNum NaN)]) = camera14
   \<and> tr_get plainEngine
       (controlledTransform
          (engineWrites plainEngine (proxy14 True)
             [(''zoom'', JNum (Fin 15)), (''_zoom'', JNum (Fin 16)), (''zoom'', JNum NaN)]))
       ''zoom'' = Inr (JNum (Fin 14))"
proof -
  have h1: "\<forall>w \<in> set [(''zoom'', JNum (Fin 15)), (''_zoom'', JNum (Fin 16)), (''zoom'', JNum NaN)].
              fst w \<in> set numericCameraProps
              \<and> isFinite (declaredFor (reactViewState (proxy14 True)) (fst w))
              \<and> writeBackNeutral plainEngine (fst w)"
    by (simp add: numericCameraProps_def declaredFor_def proxy14_def declared14_def
        writeBackNeutral_plain)
  have h2: "declaredFor (reactViewState (proxy14 True)) ''zoom'' = Some (Fin 14)"
    by (simp add: declaredFor_def proxy14_def declared14_def)
  have h3: "tr_get plainEngine (controlledTransform (proxy14 True)) ''zoom'' = Inr (JNum (Fin 14))"
    by (simp add: plainEngine_def proxy14_def camera14_def)
  have ct: "controlledTransform (proxy14 True) = camera14"
    by (simp add: proxy14_def)
  from declared_field_supremacy[OF h1 h2 h3] show ?thesis
    unfolding ct by blast
qed

subsection \<open>Undeclared fields\<close>

lemma camera_cases:
  "prop \<in> set cameraProps \<longleftrightarrow>
     prop = ''center'' \<or> prop = ''_center'' \<or> prop \<in> set numericCameraProps"
  by (simp add: cameraProps_def)

lemma center_not_special:
  "prop = ''center'' \<or> prop = ''_center'' \<Longrightarrow>
     prop \<noteq> ''$reactViewState'' \<and> prop \<noteq> ''$proposedTransform'' \<and> prop \<noteq> ''$internalUpdate''"
  by (elim disjE) simp_all

lemma camera_not_special:
  assumes "prop \<in> set cameraProps"
  shows "prop \<noteq> ''$reactViewState''" "prop \<noteq> ''$proposedTransform''" "prop \<noteq> ''$internalUpdate''"
  using assms numeric_not_special[of "prop"] center_not_special[of "prop"]
  unfolding camera_cases by blast+

lemma camera_not_method:
  assumes "prop \<in> set cameraProps"
  shows "prop \<noteq> ''_setZoom''" "prop \<noteq> ''_translateCameraConstrained''" "prop \<notin> set unproxiedMethods"
  using assms unfolding camera_cases numeric_cases unproxiedMethods_def
  by (elim disjE; simp)+

lemma controlledValueOf_free:
  assumes "prop \<in> set cameraProps" "undeclared (reactViewState st) prop"
  shows "controlledValueOf E st prop v = Inr (st, v, False)"
proof (cases "prop = ''center'' \<or> prop = ''_center''")
  case True
  with assms(2) show ?thesis
    by (auto simp: controlledValueOf_def centerValue_def undeclared_def)
next
  case False
  with assms have "prop \<in> set numericCameraProps" "\<not> isFinite (declaredFor (reactViewState st) prop)"
    by (simp_all add: camera_cases undeclared_def)
  then show ?thesis by (rule controlledValueOf_undeclared)
qed

lemma set_handler_free:
  assumes "prop \<in> set cameraProps" "undeclared (reactViewState st) prop"
  shows "set_handler E st prop v =
           writeControlled E
             (writeProposed E (saveProposed E st prop v (differs v False v)) prop v) prop v"
  using camera_not_special[OF assms(1)]
  by (simp add: set_handler_field controlledValueOf_free[OF assms])

lemma proxyFree_simps:
  "reactViewState (proxyFree b) = emptyViewState"
  "controlledTransform (proxyFree b) = camera14"
  "internalUpdate (proxyFree b) = b"
  "proposedTransform (proxyFree b) = None"
  "reported (proxyFree b) = []"
  by (simp_all add: proxyFree_def)

lemma proxy14_simps:
  "reactViewState (proxy14 b) = declared14"
  "controlledTransform (proxy14 b) = camera14"
  "internalUpdate (proxy14 b) = b"
  "proposedTransform (proxy14 b) = None"
  "reported (proxy14 b) = []"
  by (simp_all add: proxy14_def)

lemma proxyDiverged_simps:
  "reactViewState (proxyDiverged b) = declared14"
  "controlledTransform (proxyDiverged b) = camera14"
  "internalUpdate (proxyDiverged b) = b"
  "proposedTransform (proxyDiverged b) = Some camera15"
  "reported (proxyDiverged b) = []"
  by (simp_all add: proxyDiverged_def)

text \<open>
  Claim C2. For a camera field with no declared value, a write of \<open>v\<close> through the set
  handler performs \<^verbatim>\<open>controlledTransform[prop] = v\<close> with \<open>v\<close> itself: when that
  assignment returns the transform \<open>c'\<close>, the committed transform after the write is \<open>c'\<close>
  and the handler returns true. This holds during an engine-driven mutation and outside
  one. (On a transform whose properties are data properties the committed value read back
  is then exactly \<open>v\<close>, as in the run that follows.)
\<close>

theorem uncontrolled_passthrough:
  assumes "prop \<in> set cameraProps" "undeclared (reactViewState st) prop"
    and "tr_set E (controlledTransform st) prop v = Inr c'"
  shows "controlledTransform (fst (set_handler E st prop v)) = c'
       \<and> snd (set_handler E st prop v)
       \<and> reported (fst (set_handler E st prop v))
           = reported (writeProposed E (saveProposed E st prop v (differs v False v)) prop v)"
  using assms(3) unfolding set_handler_free[OF assms(1,2)]
  by (simp add: writeControlled_def)

theorem uncontrolled_passthrough_witness:
  "tr_get plainEngine
     (controlledTransform (fst (set_handler plainEngine (proxyFree True) ''zoom'' (JNum (Fin 15)))))
     ''zoom'' = Inr (JNum (Fin 15))
   \<and> snd (set_handler plainEngine (proxyFree True) ''zoom'' (JNum (Fin 15)))"
proof -
  let ?c = "Plain ((\<lambda>p. Undefined)(''zoom'' := JNum (Fin 15)))"
  have h1: "''zoom'' \<in> set cameraProps"
    by (simp add: cameraProps_def numericCameraProps_def)
  have h2: "undeclared (reactViewState (proxyFree True)) ''zoom''"
    by (simp add: undeclared_def declaredFor_def proxyFree_simps emptyViewState_def)
  have h3: "tr_set plainEngine (controlledTransform (proxyFree True)) ''zoom'' (JNum (Fin 15)) = Inr ?c"
    by (simp add: plainEngine_def proxyFree_simps camera14_def)
  have "tr_get plainEngine ?c ''zoom'' = Inr (JNum (Fin 15))"
    by (simp add: plainEngine_def)
  with uncontrolled_passthrough[OF h1 h2 h3] show ?thesis by simp
qed

subsection \<open>Writes outside a mutation\<close>

lemma saveProposed_idle: "\<not> internalUpdate st \<Longrightarrow> saveProposed E st prop v d = st"
  by (simp add: saveProposed_def)

lemma writeProposed_idle: "\<not> internalUpdate st \<Longrightarrow> writeProposed E st prop v = st"
  by (simp add: writeProposed_def split: option.splits)

text \<open>
  Claim C5, as the code has it. With \<^verbatim>\<open>$internalUpdate\<close> false, a write to a numeric
  camera property is accepted into the committed transform only when the property has no
  finite declared value. When it has one, the handler assigns the committed transform its
  own current value, so the written value is dropped. In both cases the proposed transform
  is left as it is.
\<close>

theorem idle_write:
  assumes "\<not> internalUpdate st" "prop \<in> set numericCameraProps"
  shows "set_handler E st prop v =
           (if isFinite (declaredFor (reactViewState st) prop) then
              (case tr_get E (controlledTransform st) prop of
                 Inr c \<Rightarrow> writeControlled E st prop c
               | Inl e \<Rightarrow>
                   (onError E (createProxyError ''set'' prop v
                      (''Unexpected error in proxy setter: '' @ errorMessage e)) st, False))
            else writeControlled E st prop v)
         \<and> proposedTransform (fst (set_handler E st prop v)) = proposedTransform st"
proof (cases "isFinite (declaredFor (reactViewState st) prop)")
  case True
  show ?thesis
    using assms(1) True
    by (simp add: set_handler_numeric[OF assms(2)] controlledValueOf_declared[OF assms(2) True]
        saveProposed_idle writeProposed_idle split: sum.splits)
next
  case False
  show ?thesis
    using assms(1) False
    by (simp add: set_handler_numeric[OF assms(2)] controlledValueOf_undeclared[OF assms(2) False]
        saveProposed_idle writeProposed_idle)
qed

theorem idle_write_witness:
  "set_handler plainEngine (proxy14 False) ''zoom'' (JNum (Fin 15)) = (proxy14 False, True)
   \<and> set_handler plainEngine (proxyFree False) ''zoom'' (JNum (Fin 15))
       = ((proxyFree False)\<lparr>controlledTransform :=
             Plain ((\<lambda>p. Undefined)(''zoom'' := JNum (Fin 15)))\<rparr>, True)"
proof -
  have n: "''zoom'' \<in> set numericCameraProps" by (simp add: numericCameraProps_def)
  have a: "\<not> internalUpdate (proxy14 False)" by (simp add: proxy14_simps)
  have b: "\<not> internalUpdate (proxyFree False)" by (simp add: proxyFree_simps)
  have wb: "writeControlled plainEngine (proxy14 False) ''zoom'' (JNum (Fin 14)) = (proxy14 False, True)"
    by (simp add: writeControlled_def plainEngine_def proxy14_def camera14_def)
  from idle_write[OF a n, of plainEngine "JNum (Fin 15)"]
  have 1: "set_handler plainEngine (proxy14 False) ''zoom'' (JNum (Fin 15)) = (proxy14 False, True)"
    by (simp add: declaredFor_def proxy14_simps declared14_def plainEngine_def camera14_def wb[unfolded plainEngine_def camera14_def])
  from idle_write[OF b n, of plainEngine "JNum (Fin 15)"]
  have 2: "set_handler plainEngine (proxyFree False) ''zoom'' (JNum (Fin 15))
       = ((proxyFree False)\<lparr>controlledTransform :=
             Plain ((\<lambda>p. Undefined)(''zoom'' := JNum (Fin 15)))\<rparr>, True)"
    by (simp add: declaredFor_def proxyFree_simps emptyViewState_def writeControlled_def
        plainEngine_def camera14_def)
  from 1 2 show ?thesis by blast
qed

text \<open>
  Claim C5 as stated fails: zoom 14 is declared and committed, no mutation is in progress,
  and a write of zoom 15 leaves the committed zoom at 14.
\<close>

theorem idle_write_overrides_declared:
  "\<not> internalUpdate (proxy14 False)
   \<and> tr_get plainEngine
       (controlledTransform (fst (set_handler plainEngine (proxy14 False) ''zoom'' (JNum (Fin 15)))))
       ''zoom'' = Inr (JNum (Fin 14))
   \<and> tr_get plainEngine
       (controlledTransform (fst (set_handler plainEngine (proxy14 False) ''zoom'' (JNum (Fin 15)))))
       ''zoom'' \<noteq> Inr (JNum (Fin 15))"
  by (simp add: set_handler_def isValidTransformProperty_def controlledValueOf_def
      proxy14_def declared14_def differs_def saveProposed_def writeProposed_def
      writeControlled_def plainEngine_def camera14_def)

section \<open>Properties of the get handler\<close>

lemma get_handler_field:
  assumes "prop \<in> set cameraProps"
  shows "get_handler E st prop =
           (case tr_get E
                      (case proposedTransform st of
                         Some p \<Rightarrow> if internalUpdate st then p else controlledTransform st
                       | None \<Rightarrow> controlledTransform st) prop of
                 Inr v \<Rightarrow> (st, Value v)
               | Inl e \<Rightarrow>
                   (onError E (createProxyError ''get'' prop Undefined
                       (''Unexpected error in proxy getter: '' @ errorMessage e)) st,
                    Value Undefined))"
  using camera_not_special[OF assms] camera_not_method[OF assms]
  by (simp add: get_handler_def isValidTransformProperty_def)

text \<open>
  Claim C7. A read of a camera field through the get handler returns the proposed
  transform's value while \<^verbatim>\<open>$internalUpdate\<close> is true and a proposed transform exists,
  and the committed transform's value at all other times; the read changes nothing.
\<close>

theorem read_path:
  assumes "prop \<in> set cameraProps"
  shows "(internalUpdate st \<and> proposedTransform st = Some p \<and> tr_get E p prop = Inr v
            \<longrightarrow> get_handler E st prop = (st, Value v))
       \<and> ((\<not> internalUpdate st \<or> proposedTransform st = None)
            \<and> tr_get E (controlledTransform st) prop = Inr v
            \<longrightarrow> get_handler E st prop = (st, Value v))"
  unfolding get_handler_field[OF assms]
  by (auto split: option.splits)

theorem read_path_witness:
  "get_handler plainEngine (proxyDiverged True) ''zoom''
     = (proxyDiverged True, Value (JNum (Fin 15)))
   \<and> get_handler plainEngine (proxyDiverged False) ''zoom''
     = (proxyDiverged False, Value (JNum (Fin 14)))
   \<and> get_handler plainEngine (proxy14 True) ''zoom''
     = (proxy14 True, Value (JNum (Fin 14)))"
proof -
  have c: "''zoom'' \<in> set cameraProps"
    by (simp add: cameraProps_def numericCameraProps_def)
  have g15: "tr_get plainEngine camera15 ''zoom'' = Inr (JNum (Fin 15))"
    by (simp add: plainEngine_def camera15_def)
  have g14: "tr_get plainEngine camera14 ''zoom'' = Inr (JNum (Fin 14))"
    by (simp add: plainEngine_def camera14_def)
  from read_path[OF c, of "proxyDiverged True" camera15 plainEngine "JNum (Fin 15)"] g15
  have 1: "get_handler plainEngine (proxyDiverged True) ''zoom''
     = (proxyDiverged True, Value (JNum (Fin 15)))"
    by (simp add: proxyDiverged_simps)
  from read_path[OF c, of "proxyDiverged False" camera15 plainEngine "JNum (Fin 14)"] g14
  have 2: "get_handler plainEngine (proxyDiverged False) ''zoom''
     = (proxyDiverged False, Value (JNum (Fin 14)))"
    by (simp add: proxyDiverged_simps)
  from read_path[OF c, of "proxy14 True" camera15 plainEngine "JNum (Fin 14)"] g14
  have 3: "get_handler plainEngine (proxy14 True) ''zoom''
     = (proxy14 True, Value (JNum (Fin 14)))"
    by (simp add: proxy14_simps)
  from 1 2 3 show ?thesis by blast
qed

text \<open>
  Claim C8, as the code has it. The get handler returns its own closure for
  \<^verbatim>\<open>_setZoom\<close>. Called with a finite \<open>z\<close>, the closure first calls
  \<^verbatim>\<open>_setZoom(z)\<close> on the proposed transform when \<^verbatim>\<open>$internalUpdate\<close> is true and a
  proposed transform exists. If that call returns normally (or is not made), the closure
  calls \<^verbatim>\<open>_setZoom(z)\<close> on the committed transform if and only if the declared zoom is
  not finite. If that call throws, the error is reported and nothing else happens: both
  calls share one \<^verbatim>\<open>try\<close>, so the committed transform is not written even when zoom
  is undeclared.
\<close>

theorem setZoom_bypass:
  assumes "numberIsFinite z"
  shows "get_handler E st ''_setZoom'' = (st, SetZoomFn)
       \<and> ((\<forall>p. internalUpdate st \<and> proposedTransform st = Some p
                \<longrightarrow> (\<exists>p'. tr_call E p ''_setZoom'' [z] = Inr p'))
            \<longrightarrow> controlledTransform (call_setZoom E st z) =
                  (if isFinite (zoom (reactViewState st)) then controlledTransform st
                   else (case tr_call E (controlledTransform st) ''_setZoom'' [z] of
                           Inr c' \<Rightarrow> c' | Inl e \<Rightarrow> controlledTransform st))
                \<and> proposedTransform (call_setZoom E st z) =
                  (case proposedTransform st of
                     Some p \<Rightarrow>
                       if internalUpdate st then
                         (case tr_call E p ''_setZoom'' [z] of
                            Inr p' \<Rightarrow> Some p' | Inl e \<Rightarrow> Some p)
                       else Some p
                   | None \<Rightarrow> None))
       \<and> (\<forall>p e. internalUpdate st \<and> proposedTransform st = Some p
                  \<and> tr_call E p ''_setZoom'' [z] = Inl e
            \<longrightarrow> call_setZoom E st z =
                  onError E (createProxyError ''method'' ''_setZoom'' z
                               (''Error in _setZoom: '' @ errorMessage e)) st)"
proof -
  have g: "get_handler E st ''_setZoom'' = (st, SetZoomFn)"
    by (simp add: get_handler_def isValidTransformProperty_def)
  have ok: "controlledTransform (call_setZoom E st z) =
                  (if isFinite (zoom (reactViewState st)) then controlledTransform st
                   else (case tr_call E (controlledTransform st) ''_setZoom'' [z] of
                           Inr c' \<Rightarrow> c' | Inl e \<Rightarrow> controlledTransform st))
                \<and> proposedTransform (call_setZoom E st z) =
                  (case proposedTransform st of
                     Some p \<Rightarrow>
                       if internalUpdate st then
                         (case tr_call E p ''_setZoom'' [z] of
                            Inr p' \<Rightarrow> Some p' | Inl e \<Rightarrow> Some p)
                       else Some p
                   | None \<Rightarrow> None)"
    if returns: "\<forall>p. internalUpdate st \<and> proposedTransform st = Some p
                \<longrightarrow> (\<exists>p'. tr_call E p ''_setZoom'' [z] = Inr p')"
  proof (cases "proposedTransform st")
    case None
    with assms show ?thesis
      by (simp add: call_setZoom_def split: sum.splits)
  next
    case (Some p)
    show ?thesis
    proof (cases "internalUpdate st")
      case False
      with Some assms show ?thesis
        by (simp add: call_setZoom_def split: sum.splits)
    next
      case True
      with Some returns obtain p' where "tr_call E p ''_setZoom'' [z] = Inr p'" by blast
      with True Some assms show ?thesis
        by (simp add: call_setZoom_def split: sum.splits)
    qed
  qed
  have thrown: "call_setZoom E st z =
                  onError E (createProxyError ''method'' ''_setZoom'' z
                               (''Error in _setZoom: '' @ errorMessage e)) st"
    if "internalUpdate st" "proposedTransform st = Some p" "tr_call E p ''_setZoom'' [z] = Inl e"
    for p e
    using that assms by (simp add: call_setZoom_def)
  from g ok thrown show ?thesis by blast
qed

theorem setZoom_bypass_witness:
  "controlledTransform (call_setZoom plainEngine (proxyDiverged True) (JNum (Fin 16))) = camera14
   \<and> proposedTransform (call_setZoom plainEngine (proxyDiverged True) (JNum (Fin 16)))
       = Some (Plain ((\<lambda>p. Undefined)(''zoom'' := JNum (Fin 15), ''_zoom'' := JNum (Fin 16))))
   \<and> controlledTransform (call_setZoom plainEngine proxyFreeDiverged (JNum (Fin 16)))
       = Plain ((\<lambda>p. Undefined)(''zoom'' := JNum (Fin 14), ''_zoom'' := JNum (Fin 16)))
   \<and> controlledTransform (call_setZoom plainEngine (proxyFree False) (JNum (Fin 16)))
       = Plain ((\<lambda>p. Undefined)(''zoom'' := JNum (Fin 14), ''_zoom'' := JNum (Fin 16)))
   \<and> proposedTransform (call_setZoom plainEngine (proxyFree False) (JNum (Fin 16))) = None
   \<and> call_setZoom guardedEngine proxyFrozenProposed (JNum (Fin 16))
       = proxyFrozenProposed\<lparr>reported :=
           [createProxyError ''method'' ''_setZoom'' (JNum (Fin 16))
              ''Error in _setZoom: transform is frozen'']\<rparr>"
proof -
  have z: "numberIsFinite (JNum (Fin 16) :: plain jsval)" by simp
  have ok: "\<forall>p. internalUpdate st \<and> proposedTransform st = Some p
             \<longrightarrow> (\<exists>p'. tr_call plainEngine p ''_setZoom'' [JNum (Fin 16)] = Inr p')"
    for st :: "plain proxy"
  proof (intro allI impI)
    fix p :: plain
    obtain f where "p = Plain f" by (cases p)
    then show "\<exists>p'. tr_call plainEngine p ''_setZoom'' [JNum (Fin 16)] = Inr p'"
      by (simp add: plainEngine_def)
  qed
  from setZoom_bypass[OF z, of plainEngine "proxyDiverged True"] ok[of "proxyDiverged True"]
  have 1: "controlledTransform (call_setZoom plainEngine (proxyDiverged True) (JNum (Fin 16))) = camera14
   \<and> proposedTransform (call_setZoom plainEngine (proxyDiverged True) (JNum (Fin 16)))
       = Some (Plain ((\<lambda>p. Undefined)(''zoom'' := JNum (Fin 15), ''_zoom'' := JNum (Fin 16))))"
    by (simp add: proxyDiverged_simps declared14_def plainEngine_def camera15_def)
  from setZoom_bypass[OF z, of plainEngine proxyFreeDiverged] ok[of proxyFreeDiverged]
  have 2: "controlledTransform (call_setZoom plainEngine proxyFreeDiverged (JNum (Fin 16)))
       = Plain ((\<lambda>p. Undefined)(''zoom'' := JNum (Fin 14), ''_zoom'' := JNum (Fin 16)))"
    by (simp add: proxyFreeDiverged_def emptyViewState_def plainEngine_def camera14_def)
  from setZoom_bypass[OF z, of plainEngine "proxyFree False"] ok[of "proxyFree False"]
  have 3: "controlledTransform (call_setZoom plainEngine (proxyFree False) (JNum (Fin 16)))
       = Plain ((\<lambda>p. Undefined)(''zoom'' := JNum (Fin 14), ''_zoom'' := JNum (Fin 16)))
   \<and> proposedTransform (call_setZoom plainEngine (proxyFree False) (JNum (Fin 16))) = None"
    by (simp add: proxyFree_simps emptyViewState_def plainEngine_def camera14_def)
  have t: "tr_call guardedEngine cameraFrozen ''_setZoom'' [JNum (Fin 16)]
             = Inl (JsError ''transform is frozen'')"
    by (simp add: guardedEngine_def plainEngine_def cameraFrozen_def)
  have i: "internalUpdate proxyFrozenProposed"
    "proposedTransform proxyFrozenProposed = Some cameraFrozen"
    by (simp_all add: proxyFrozenProposed_def)
  from setZoom_bypass[OF z, of guardedEngine proxyFrozenProposed] i t
  have "call_setZoom guardedEngine proxyFrozenProposed (JNum (Fin 16))
          = onError guardedEngine
              (createProxyError ''method'' ''_setZoom'' (JNum (Fin 16))
                 (''Error in _setZoom: '' @ errorMessage (JsError ''transform is frozen'')))
              proxyFrozenProposed"
    by blast
  then have 4: "call_setZoom guardedEngine proxyFrozenProposed (JNum (Fin 16))
       = proxyFrozenProposed\<lparr>reported :=
           [createProxyError ''method'' ''_setZoom'' (JNum (Fin 16))
              ''Error in _setZoom: transform is frozen'']\<rparr>"
    by (simp add: onError_def guardedEngine_def plainEngine_def proxyFrozenProposed_def)
  from 1 2 3 4 show ?thesis by blast
qed

text \<open>
  Claim C8 as stated fails: zoom is undeclared and \<open>z\<close> is finite, a mutation is in
  progress, and \<^verbatim>\<open>_setZoom\<close> throws on the proposed transform. The committed
  transform, on which \<^verbatim>\<open>_setZoom(16)\<close> would have returned normally, is left as it
  was, and the error is reported.
\<close>

theorem setZoom_skipped_when_proposed_throws:
  "\<not> isFinite (zoom (reactViewState proxyFrozenProposed))
   \<and> numberIsFinite (JNum (Fin 16) :: plain jsval)
   \<and> tr_call guardedEngine (controlledTransform proxyFrozenProposed) ''_setZoom'' [JNum (Fin 16)]
       = Inr (Plain ((\<lambda>p. Undefined)(''zoom'' := JNum (Fin 14), ''_zoom'' := JNum (Fin 16))))
   \<and> controlledTransform (call_setZoom guardedEngine proxyFrozenProposed (JNum (Fin 16)))
       = camera14
   \<and> tr_get guardedEngine
       (controlledTransform (call_setZoom guardedEngine proxyFrozenProposed (JNum (Fin 16))))
       ''_zoom'' \<noteq> Inr (JNum (Fin 16))
   \<and> reported (call_setZoom guardedEngine proxyFrozenProposed (JNum (Fin 16)))
       = [createProxyError ''method'' ''_setZoom'' (JNum (Fin 16))
            ''Error in _setZoom: transform is frozen'']"
  by (simp add: call_setZoom_def proxyFrozenProposed_def emptyViewState_def guardedEngine_def
      plainEngine_def cameraFrozen_def camera14_def onError_def)

section \<open>When a proposed transform exists\<close>

lemma centerValue_frame [simp]:
  "controlledTransform (fst (centerValue E st prop v)) = controlledTransform st"
  "proposedTransform (fst (centerValue E st prop v)) = proposedTransform st"
  "internalUpdate (fst (centerValue E st prop v)) = internalUpdate st"
  "reactViewState (fst (centerValue E st prop v)) = reactViewState st"
  by (simp_all add: centerValue_def Let_def split: option.splits sum.splits)

lemma controlledValueOf_frame:
  assumes "controlledValueOf E st prop v = Inr (st1, cv, isNew)"
  shows "controlledTransform st1 = controlledTransform st"
    "proposedTransform st1 = proposedTransform st"
    "internalUpdate st1 = internalUpdate st"
    "reactViewState st1 = reactViewState st"
proof -
  have "st1 = st \<or> st1 = fst (centerValue E st prop v)"
    using assms
    by (auto simp: controlledValueOf_def Let_def split: if_splits sum.splits)
  then show "controlledTransform st1 = controlledTransform st"
    "proposedTransform st1 = proposedTransform st"
    "internalUpdate st1 = internalUpdate st"
    "reactViewState st1 = reactViewState st"
    by auto
qed

lemma hasProposed_onError [simp]: "hasProposed (onError E e st) = hasProposed st"
  by (simp add: hasProposed_def)

lemma hasProposed_cong:
  "proposedTransform s = proposedTransform t \<Longrightarrow> hasProposed s = hasProposed t"
  by (simp add: hasProposed_def)

lemma writeProposed_exists [simp]:
  "hasProposed (writeProposed E st prop v) = hasProposed st"
  by (simp add: writeProposed_def hasProposed_def onError_def split: option.splits sum.splits)

lemma writeControlled_exists [simp]:
  "hasProposed (fst (writeControlled E st prop v)) = hasProposed st"
  by (simp add: hasProposed_def)

lemma cloneIfAbsent_exists:
  "hasProposed (cloneIfAbsent E f st) = (hasProposed st \<or> canClone E (controlledTransform st))"
  by (simp add: cloneIfAbsent_def hasProposed_def canClone_def split: option.splits sum.splits)

lemma saveProposed_exists:
  "hasProposed (saveProposed E st prop v d)
     = (hasProposed st \<or> (internalUpdate st \<and> d \<and> canClone E (controlledTransform st)))"
  by (auto simp: saveProposed_def cloneIfAbsent_exists)

lemma not_special:
  "p \<notin> set specialProps \<longleftrightarrow>
     p \<noteq> ''$reactViewState'' \<and> p \<noteq> ''$proposedTransform'' \<and> p \<noteq> ''$internalUpdate''"
  by (simp add: specialProps_def)

lemma write_exists:
  assumes "p \<notin> set specialProps"
  shows "hasProposed (fst (set_handler E st p v))
     = (hasProposed st
        \<or> (internalUpdate st \<and> overridden E st (Write p v)
            \<and> canClone E (controlledTransform st)))"
proof (cases "controlledValueOf E st p v")
  case (Inl e)
  with assms show ?thesis
    by (simp add: not_special set_handler_field)
next
  case (Inr r)
  obtain st1 cv isNew where r: "r = (st1, cv, isNew)" by (cases r)
  note fr = controlledValueOf_frame[OF Inr[unfolded r]]
  have "hasProposed st1 = hasProposed st" by (rule hasProposed_cong) (rule fr)
  with assms show ?thesis
    by (simp add: not_special set_handler_field Inr r saveProposed_exists fr)
qed

lemma write_internalUpdate:
  assumes "p \<notin> set specialProps"
  shows "internalUpdate (fst (set_handler E st p v)) = internalUpdate st"
proof (cases "controlledValueOf E st p v")
  case (Inl e)
  with assms show ?thesis
    by (simp add: not_special set_handler_field)
next
  case (Inr r)
  obtain st1 cv isNew where r: "r = (st1, cv, isNew)" by (cases r)
  note fr = controlledValueOf_frame[OF Inr[unfolded r]]
  from assms show ?thesis
    by (simp add: not_special set_handler_field Inr r fr)
qed

lemma afterConstrained_exists:
  "hasProposed (afterConstrained E st p)
     = (hasProposed st \<or> (internalUpdate st \<and> constrainedRead E st (Read p)
            \<and> canClone E (controlledTransform st)))"
  by (auto simp: afterConstrained_def cloneIfAbsent_exists)

lemma afterConstrained_internalUpdate:
  "internalUpdate (afterConstrained E st p) = internalUpdate st"
  by (simp add: afterConstrained_def)

lemma read_exists:
  assumes "p \<notin> set specialProps"
  shows "hasProposed (fst (get_handler E st p))
     = (hasProposed st
        \<or> (internalUpdate st \<and> constrainedRead E st (Read p)
            \<and> canClone E (controlledTransform st)))"
proof (cases "p = ''_setZoom''")
  case True
  then show ?thesis
    by (simp add: get_handler_def isValidTransformProperty_def)
next
  case False
  have "fst (get_handler E st p) = afterConstrained E st p
       \<or> (\<exists>e. fst (get_handler E st p) = onError E e (afterConstrained E st p))"
    using assms False unfolding not_special get_handler_def isValidTransformProperty_def Let_def
      afterConstrained_def[symmetric]
    by (simp split: sum.splits) blast
  then have "hasProposed (fst (get_handler E st p)) = hasProposed (afterConstrained E st p)"
    by auto
  then show ?thesis by (simp add: afterConstrained_exists)
qed

lemma read_internalUpdate:
  assumes "p \<notin> set specialProps"
  shows "internalUpdate (fst (get_handler E st p)) = internalUpdate st"
proof (cases "p = ''_setZoom''")
  case True
  then show ?thesis
    by (simp add: get_handler_def isValidTransformProperty_def)
next
  case False
  have "fst (get_handler E st p) = afterConstrained E st p
       \<or> (\<exists>e. fst (get_handler E st p) = onError E e (afterConstrained E st p))"
    using assms False unfolding not_special get_handler_def isValidTransformProperty_def Let_def
      afterConstrained_def[symmetric]
    by (simp split: sum.splits) blast
  then show ?thesis by (auto simp: afterConstrained_internalUpdate)
qed

lemma perform_exists:
  assumes "propOf a \<notin> set specialProps"
  shows "(hasProposed (perform E st a))
     = (hasProposed st
        \<or> (internalUpdate st \<and> clonesAt E st a
            \<and> canClone E (controlledTransform st)))"
proof (cases a)
  case (Read p)
  with assms read_exists[of p E st] show ?thesis by (simp add: clonesAt_def)
next
  case (Write p v)
  with assms write_exists[of p E st v] show ?thesis by (simp add: clonesAt_def)
qed

lemma perform_internalUpdate:
  assumes "propOf a \<notin> set specialProps"
  shows "internalUpdate (perform E st a) = internalUpdate st"
  using assms by (cases a) (simp_all add: read_internalUpdate write_internalUpdate)

lemma run_Nil: "run E st [] = st"
  by (simp add: run_def)

lemma run_Cons: "run E st (a # as) = run E (perform E st a) as"
  by (simp add: run_def)

lemma run_only_if:
  assumes "\<forall>a \<in> set as. propOf a \<notin> set specialProps"
    and "hasProposed (run E st as)"
  shows "hasProposed st \<or> (internalUpdate st \<and> anyAccess clonesAt E st as)"
  using assms
proof (induction as arbitrary: st)
  case Nil
  then show ?case by (simp add: run_Nil)
next
  case (Cons a as)
  from Cons.prems have a: "propOf a \<notin> set specialProps"
    and rest: "\<forall>a \<in> set as. propOf a \<notin> set specialProps"
    and ex: "hasProposed (run E (perform E st a) as)"
    by (simp_all add: run_Cons)
  from Cons.IH[OF rest ex]
  have "hasProposed (perform E st a)
        \<or> (internalUpdate (perform E st a) \<and> anyAccess clonesAt E (perform E st a) as)" .
  then show ?case
    unfolding perform_exists[OF a] perform_internalUpdate[OF a]
    by auto
qed

lemma run_if:
  assumes "\<forall>a \<in> set as. propOf a \<notin> set specialProps"
    and "\<forall>t. canClone E t"
    and "hasProposed st \<or> (internalUpdate st \<and> anyAccess clonesAt E st as)"
  shows "hasProposed (run E st as)"
  using assms(1,3)
proof (induction as arbitrary: st)
  case Nil
  then show ?case by (simp add: run_Nil)
next
  case (Cons a as)
  from Cons.prems have a: "propOf a \<notin> set specialProps"
    and rest: "\<forall>a \<in> set as. propOf a \<notin> set specialProps"
    by simp_all
  from assms(2) have c: "canClone E (controlledTransform st)" by blast
  have "hasProposed (perform E st a)
        \<or> (internalUpdate (perform E st a) \<and> anyAccess clonesAt E (perform E st a) as)"
    using Cons.prems(2) c
    unfolding perform_exists[OF a] perform_internalUpdate[OF a]
    by auto
  from Cons.IH[OF rest this] show ?case by (simp add: run_Cons)
qed

text \<open>
  Claim C3, as the code has it. Start with no proposed transform and let the engine read
  and write properties other than the three the proxy adds. If a proposed transform exists
  afterwards, then \<^verbatim>\<open>$internalUpdate\<close> is true and some access was a write with
  \<^verbatim>\<open>controlledValue !== value\<close> or a read of \<^verbatim>\<open>_translateCameraConstrained\<close> under a
  controlled view state. Conversely, when \<^verbatim>\<open>clone()\<close> never throws, such an access
  during a mutation makes a proposed transform exist. The handlers never discard it:
  writing false to \<^verbatim>\<open>$internalUpdate\<close> leaves it in place, and it becomes null when null
  is written to \<^verbatim>\<open>$proposedTransform\<close>.
\<close>

theorem proposed_emergence:
  assumes "proposedTransform st = None"
    and "\<forall>a \<in> set as. propOf a \<notin> set specialProps"
  shows "(hasProposed (run E st as)
            \<longrightarrow> internalUpdate st \<and> anyAccess clonesAt E st as)
       \<and> ((\<forall>t. canClone E t) \<and> internalUpdate st \<and> anyAccess clonesAt E st as
            \<longrightarrow> hasProposed (run E st as))
       \<and> proposedTransform (fst (set_handler E (run E st as) ''$internalUpdate'' (JBool False)))
           = proposedTransform (run E st as)
       \<and> proposedTransform (fst (set_handler E (run E st as) ''$proposedTransform'' Null)) = None"
proof -
  have 1: "hasProposed (run E st as)
            \<longrightarrow> internalUpdate st \<and> anyAccess clonesAt E st as"
    using run_only_if[OF assms(2), of E st] assms(1) by (auto simp: hasProposed_def)
  have 2: "(\<forall>t. canClone E t) \<and> internalUpdate st \<and> anyAccess clonesAt E st as
            \<longrightarrow> hasProposed (run E st as)"
    using run_if[OF assms(2), of E st] by blast
  have 3: "proposedTransform (fst (set_handler E s ''$internalUpdate'' (JBool False)))
           = proposedTransform s" for s
    by (simp add: set_handler_def isValidTransformProperty_def)
  have 4: "proposedTransform (fst (set_handler E s ''$proposedTransform'' Null)) = None" for s
    by (simp add: set_handler_def isValidTransformProperty_def)
  from 1 2 3 4 show ?thesis by blast
qed

theorem proposed_emergence_witness:
  "hasProposed (run plainEngine (proxy14 True) [Write ''zoom'' (JNum (Fin 15))])
   \<and> hasProposed (run plainEngine (proxy14 True) [Read ''_translateCameraConstrained''])
   \<and> \<not> hasProposed (run plainEngine (proxy14 True) [Read ''zoom'', Write ''zoom'' (JNum (Fin 14))])
   \<and> \<not> hasProposed (run plainEngine (proxy14 False) [Write ''zoom'' (JNum (Fin 15))])
   \<and> proposedTransform
        (fst (set_handler plainEngine
                (run plainEngine (proxy14 True) [Write ''zoom'' (JNum (Fin 15))])
                ''$proposedTransform'' Null)) = None"
proof -
  have cl: "\<forall>t. canClone plainEngine t" by (simp add: canClone_def plainEngine_def)
  have none: "proposedTransform (proxy14 b) = None" for b by (simp add: proxy14_simps)
  have iu: "internalUpdate (proxy14 True)" "\<not> internalUpdate (proxy14 False)"
    by (simp_all add: proxy14_simps)
  have cv15: "controlledValueOf plainEngine (proxy14 b) ''zoom'' (JNum (Fin 15))
                = Inr (proxy14 b, JNum (Fin 14), False)" for b
    by (simp add: controlledValueOf_def proxy14_simps declared14_def plainEngine_def camera14_def)
  have cv14: "controlledValueOf plainEngine (proxy14 b) ''zoom'' (JNum (Fin 14))
                = Inr (proxy14 b, JNum (Fin 14), False)" for b
    by (simp add: controlledValueOf_def proxy14_simps declared14_def plainEngine_def camera14_def)
  have rd: "fst (get_handler plainEngine (proxy14 b) ''zoom'') = proxy14 b" for b
    by (simp add: get_handler_def isValidTransformProperty_def unproxiedMethods_def
        proxy14_simps plainEngine_def camera14_def)
  have s1: "\<forall>a \<in> set [Write ''zoom'' (JNum (Fin 15)) :: plain access]. propOf a \<notin> set specialProps"
    by (simp add: specialProps_def)
  have s2: "\<forall>a \<in> set [Read ''_translateCameraConstrained'' :: plain access]. propOf a \<notin> set specialProps"
    by (simp add: specialProps_def)
  have s3: "\<forall>a \<in> set [Read ''zoom'', Write ''zoom'' (JNum (Fin 14)) :: plain access].
              propOf a \<notin> set specialProps"
    by (simp add: specialProps_def)
  have a1: "anyAccess clonesAt plainEngine (proxy14 True) [Write ''zoom'' (JNum (Fin 15))]"
    by (simp add: clonesAt_def cv15 differs_def)
  have a2: "anyAccess clonesAt plainEngine (proxy14 True) [Read ''_translateCameraConstrained'']"
    by (simp add: clonesAt_def proxy14_simps plainEngine_def declared14_def controlledBySpec_def)
  have a3: "\<not> anyAccess clonesAt plainEngine (proxy14 True)
               [Read ''zoom'', Write ''zoom'' (JNum (Fin 14))]"
    by (simp add: clonesAt_def rd cv14 differs_def)
  from proposed_emergence[OF none s1, of plainEngine True] cl iu(1) a1
  have 1: "hasProposed (run plainEngine (proxy14 True) [Write ''zoom'' (JNum (Fin 15))])
    \<and> proposedTransform
        (fst (set_handler plainEngine
                (run plainEngine (proxy14 True) [Write ''zoom'' (JNum (Fin 15))])
                ''$proposedTransform'' Null)) = None"
    by blast
  from proposed_emergence[OF none s2, of plainEngine True] cl iu(1) a2
  have 2: "hasProposed (run plainEngine (proxy14 True) [Read ''_translateCameraConstrained''])"
    by blast
  from proposed_emergence[OF none s3, of plainEngine True] a3
  have 3: "\<not> hasProposed (run plainEngine (proxy14 True) [Read ''zoom'', Write ''zoom'' (JNum (Fin 14))])"
    by blast
  from proposed_emergence[OF none s1, of plainEngine False] iu(2)
  have 4: "\<not> hasProposed (run plainEngine (proxy14 False) [Write ''zoom'' (JNum (Fin 15))])"
    by blast
  from 1 2 3 4 show ?thesis by blast
qed

text \<open>
  Claim C3 as stated fails: during a mutation, a read of
  \<^verbatim>\<open>_translateCameraConstrained\<close> with a declared view state creates the proposed
  transform although no write was overridden (there was no write at all).
\<close>

theorem proposed_without_override:
  "\<not> proposedIffOverridden plainEngine (proxy14 True) [Read ''_translateCameraConstrained'']"
  by (simp add: proposedIffOverridden_def hasProposed_def run_def get_handler_def isValidTransformProperty_def
      cloneIfAbsent_def proxy14_simps plainEngine_def declared14_def unproxiedMethods_def
      camera14_def controlledBySpec_def Let_def)

section \<open>Properties outside the recognized set\<close>

lemma not_valid:
  "prop \<notin> set validProps \<longleftrightarrow>
     prop \<noteq> ''center'' \<and> prop \<noteq> ''_center'' \<and> prop \<noteq> ''zoom'' \<and> prop \<noteq> ''_zoom''
     \<and> prop \<noteq> ''_seaLevelZoom'' \<and> prop \<noteq> ''pitch'' \<and> prop \<noteq> ''_pitch''
     \<and> prop \<noteq> ''bearing'' \<and> prop \<noteq> ''rotation'' \<and> prop \<noteq> ''angle''
     \<and> prop \<noteq> ''_centerAltitude'' \<and> prop \<noteq> ''_setZoom''
     \<and> prop \<noteq> ''_translateCameraConstrained''
     \<and> prop \<noteq> ''$reactViewState'' \<and> prop \<noteq> ''$proposedTransform''
     \<and> prop \<noteq> ''$internalUpdate''"
  by (simp add: validProps_def)

lemma controlledValueOf_other:
  assumes "prop \<notin> set validProps"
  shows "controlledValueOf E st prop v = Inr (st, v, False)"
  using assms unfolding not_valid by (simp add: controlledValueOf_def)

text \<open>
  Claim C4. The claim is that a get or set of a property outside the recognized set is
  rejected and reported. The code does not do so: \<open>isValidTransformProperty\<close> holds for
  every string, and for a property in neither list the get handler returns the
  transform's value and the set handler assigns the written value to the committed
  transform, reporting nothing of its own.
\<close>

theorem unrecognized_property_forwarded:
  assumes "prop \<notin> set validProps" "prop \<notin> set unproxiedMethods"
  shows "isValidTransformProperty prop
       \<and> get_handler E st prop =
           (case tr_get E
                   (case proposedTransform st of
                      Some p \<Rightarrow> if internalUpdate st then p else controlledTransform st
                    | None \<Rightarrow> controlledTransform st) prop of
              Inr v \<Rightarrow> (st, Value v)
            | Inl e \<Rightarrow>
                (onError E (createProxyError ''get'' prop Undefined
                    (''Unexpected error in proxy getter: '' @ errorMessage e)) st,
                 Value Undefined))
       \<and> set_handler E st prop v =
           writeControlled E
             (writeProposed E (saveProposed E st prop v (differs v False v)) prop v) prop v"
proof -
  have 1: "isValidTransformProperty prop"
    by (simp add: isValidTransformProperty_def)
  have 2: "get_handler E st prop =
           (case tr_get E
                   (case proposedTransform st of
                      Some p \<Rightarrow> if internalUpdate st then p else controlledTransform st
                    | None \<Rightarrow> controlledTransform st) prop of
              Inr v \<Rightarrow> (st, Value v)
            | Inl e \<Rightarrow>
                (onError E (createProxyError ''get'' prop Undefined
                    (''Unexpected error in proxy getter: '' @ errorMessage e)) st,
                 Value Undefined))"
    using assms unfolding not_valid by (simp add: get_handler_def 1)
  have 3: "set_handler E st prop v =
           writeControlled E
             (writeProposed E (saveProposed E st prop v (differs v False v)) prop v) prop v"
  proof -
    have cv: "controlledValueOf E st prop v = Inr (st, v, False)"
      by (rule controlledValueOf_other[OF assms(1)])
    from assms(1) have "prop \<noteq> ''$reactViewState''" "prop \<noteq> ''$proposedTransform''"
      "prop \<noteq> ''$internalUpdate''"
      unfolding not_valid by simp_all
    then show ?thesis by (simp add: set_handler_field cv)
  qed
  from 1 2 3 show ?thesis by blast
qed

theorem unrecognized_property_forwarded_witness:
  "get_handler plainEngine proxyWidth ''width'' = (proxyWidth, Value (JNum (Fin 800)))
   \<and> set_handler plainEngine proxyWidth ''width'' (JNum (Fin 1024))
       = (proxyWidth\<lparr>controlledTransform :=
             Plain ((\<lambda>p. Undefined)(''width'' := JNum (Fin 1024)))\<rparr>, True)"
proof -
  have h1: "''width'' \<notin> set validProps" by (simp add: validProps_def)
  have h2: "''width'' \<notin> set unproxiedMethods" by (simp add: unproxiedMethods_def)
  from unrecognized_property_forwarded[OF h1 h2, of plainEngine proxyWidth "JNum (Fin 1024)"]
  show ?thesis
    by (simp add: proxyWidth_def plainEngine_def cameraWithWidth_def saveProposed_def
        writeProposed_def writeControlled_def)
qed

section \<open>Writes of the center\<close>

lemma coalesce_substituted:
  assumes "declared = None \<or> isFinite declared" "getField E v name = Inr w"
  shows "coalesce E declared v name = Inr (substituted declared w)"
proof (cases declared)
  case None
  with assms(2) show ?thesis by (simp add: coalesce_def substituted_def)
next
  case (Some n)
  with assms(1) obtain x where "n = Fin x" by (cases n) simp_all
  with Some show ?thesis by (simp add: coalesce_def substituted_def)
qed

lemma set_handler_center:
  assumes "prop = ''center'' \<or> prop = ''_center''"
  shows "set_handler E st prop v =
     (case centerValue E st prop v of
        (st1, controlledValue, isNew) \<Rightarrow>
             writeControlled E
               (writeProposed E
                  (saveProposed E st1 prop v (differs controlledValue isNew v)) prop v)
               prop controlledValue)"
  using assms center_not_special[OF assms]
  by (auto simp: set_handler_field controlledValueOf_def)

text \<open>
  Claim C6, as the code has it. Let longitude or latitude be declared finite, each of the
  two being finite or absent. A write of \<^verbatim>\<open>center\<close> or \<^verbatim>\<open>_center\<close> whose value is an
  object with constructor \<open>c\<close> stores \<^verbatim>\<open>new c(lng, lat)\<close> into the committed transform,
  where a declared coordinate replaces the written one, provided the constructor returns
  normally; the proposed transform (cloned if need be during a mutation) receives the
  written value. When the constructor throws, the error is reported and the written value
  is stored; when the written value is not an object with a constructor, it is stored as it
  is.
\<close>

theorem center_rewrite:
  assumes "prop = ''center'' \<or> prop = ''_center''"
    and "isFinite (longitude (reactViewState st)) \<or> isFinite (latitude (reactViewState st))"
    and "longitude (reactViewState st) = None \<or> isFinite (longitude (reactViewState st))"
    and "latitude (reactViewState st) = None \<or> isFinite (latitude (reactViewState st))"
    and "getField E v ''lng'' = Inr wlng" "getField E v ''lat'' = Inr wlat"
  shows "(constructorOf v = Some c
          \<and> construct E c (substituted (longitude (reactViewState st)) wlng)
                          (substituted (latitude (reactViewState st)) wlat) = Inr obj
          \<longrightarrow> set_handler E st prop v =
                writeControlled E
                  (writeProposed E (saveProposed E st prop v True) prop v) prop obj)
       \<and> (constructorOf v = Some c
          \<and> construct E c (substituted (longitude (reactViewState st)) wlng)
                          (substituted (latitude (reactViewState st)) wlat) = Inl e
          \<longrightarrow> set_handler E st prop v =
                writeControlled E
                  (writeProposed E
                     (saveProposed E
                        (onError E (createProxyError ''set'' prop v
                           (''Error creating controlled center value: '' @ errorMessage e)) st)
                        prop v (differs v False v)) prop v) prop v)
       \<and> (constructorOf v = None
          \<longrightarrow> set_handler E st prop v =
                writeControlled E
                  (writeProposed E (saveProposed E st prop v (differs v False v)) prop v) prop v)"
  using assms(2)
  by (simp add: set_handler_center[OF assms(1)] centerValue_def
      coalesce_substituted[OF assms(3,5)] coalesce_substituted[OF assms(4,6)] differs_def)

theorem center_rewrite_witness:
  "tr_get plainEngine
     (controlledTransform (fst (set_handler plainEngine (proxy14 False) ''center'' writtenCenter)))
     ''center''
     = Inr (JObject (Some ''LngLat'') [(''lng'', JNum (Fin (-122.4))), (''lat'', JNum (Fin 37.8))])
   \<and> tr_get plainEngine
     (controlledTransform (fst (set_handler plainEngine proxyLatitude ''_center'' writtenCenter)))
     ''_center''
     = Inr (JObject (Some ''LngLat'') [(''lng'', JNum (Fin 10)), (''lat'', JNum (Fin 37.8))])"
proof -
  have lng: "getField plainEngine writtenCenter ''lng'' = Inr (JNum (Fin 10))"
    and lat: "getField plainEngine writtenCenter ''lat'' = Inr (JNum (Fin 20))"
    by (simp_all add: writtenCenter_def)
  have c: "constructorOf writtenCenter = Some ''LngLat''" by (simp add: writtenCenter_def)
  have a1: "isFinite (longitude (reactViewState (proxy14 False)))
            \<or> isFinite (latitude (reactViewState (proxy14 False)))"
    and a2: "longitude (reactViewState (proxy14 False)) = None
            \<or> isFinite (longitude (reactViewState (proxy14 False)))"
    and a3: "latitude (reactViewState (proxy14 False)) = None
            \<or> isFinite (latitude (reactViewState (proxy14 False)))"
    by (simp_all add: proxy14_simps declared14_def)
  have b1: "isFinite (longitude (reactViewState proxyLatitude))
            \<or> isFinite (latitude (reactViewState proxyLatitude))"
    and b2: "longitude (reactViewState proxyLatitude) = None
            \<or> isFinite (longitude (reactViewState proxyLatitude))"
    and b3: "latitude (reactViewState proxyLatitude) = None
            \<or> isFinite (latitude (reactViewState proxyLatitude))"
    by (simp_all add: proxyLatitude_def declaredLatitude_def emptyViewState_def)
  have k1: "''center'' = ''center'' \<or> ''center'' = ''_center''" by simp
  have k2: "''_center'' = ''center'' \<or> ''_center'' = ''_center''" by simp
  from center_rewrite[OF k1 a1 a2 a3 lng lat, of "''LngLat''"
      "JObject (Some ''LngLat'') [(''lng'', JNum (Fin (-122.4))), (''lat'', JNum (Fin 37.8))]"] c
  have 1: "tr_get plainEngine
     (controlledTransform (fst (set_handler plainEngine (proxy14 False) ''center'' writtenCenter)))
     ''center''
     = Inr (JObject (Some ''LngLat'') [(''lng'', JNum (Fin (-122.4))), (''lat'', JNum (Fin 37.8))])"
    by (simp add: substituted_def proxy14_simps declared14_def plainEngine_def
        saveProposed_def writeProposed_def writeControlled_def camera14_def)
  from center_rewrite[OF k2 b1 b2 b3 lng lat, of "''LngLat''"
      "JObject (Some ''LngLat'') [(''lng'', JNum (Fin 10)), (''lat'', JNum (Fin 37.8))]"] c
  have 2: "tr_get plainEngine
     (controlledTransform (fst (set_handler plainEngine proxyLatitude ''_center'' writtenCenter)))
     ''_center''
     = Inr (JObject (Some ''LngLat'') [(''lng'', JNum (Fin 10)), (''lat'', JNum (Fin 37.8))])"
    by (simp add: substituted_def proxyLatitude_def declaredLatitude_def emptyViewState_def
        plainEngine_def saveProposed_def writeProposed_def writeControlled_def camera14_def)
  from 1 2 show ?thesis by blast
qed

text \<open>
  Claim C6 as stated fails. With longitude and latitude declared, a write of null to
  \<^verbatim>\<open>center\<close> stores null into the committed transform, which is no coordinate built by
  a constructor; and when the constructor of the written coordinate throws, the written
  coordinate (10, 20) itself is stored, not the declared one.
\<close>

theorem center_not_rewritten:
  "isFinite (longitude (reactViewState (proxy14 True)))
   \<and> isFinite (latitude (reactViewState (proxy14 True)))
   \<and> tr_get plainEngine
       (controlledTransform (fst (set_handler plainEngine (proxy14 True) ''center'' Null)))
       ''center'' = Inr Null
   \<and> (\<forall>c a b. tr_get plainEngine
       (controlledTransform (fst (set_handler plainEngine (proxy14 True) ''center'' Null)))
       ''center'' \<noteq> construct plainEngine c a b)
   \<and> tr_get rejectingEngine
       (controlledTransform
          (fst (set_handler rejectingEngine (proxy14 True) ''center'' writtenCenter)))
       ''center'' = Inr writtenCenter"
  by (simp add: set_handler_def isValidTransformProperty_def controlledValueOf_def
      centerValue_def coalesce_def proxy14_def declared14_def differs_def saveProposed_def
      writeProposed_def writeControlled_def cloneIfAbsent_def onError_def
      rejectingEngine_def plainEngine_def camera14_def writtenCenter_def)

section \<open>Properties of setGlobals\<close>

lemma callOptional_events:
  "fst (callOptional cb ev) = (case cb of None \<Rightarrow> [] | Some c \<Rightarrow> [ev])"
  by (simp add: callOptional_def split: option.splits callback.splits)

lemma reportFailure_events:
  "fst (reportFailure props onErr e) =
     (case onRTLPluginError props of None \<Rightarrow> [] | Some cb \<Rightarrow> [CalledOnRTLPluginError (rtlError props e)])
     @ (case onErr of None \<Rightarrow> [] | Some cb \<Rightarrow> [CalledOnError (rtlError props e)])"
  by (simp add: reportFailure_def callOptional_events[symmetric] split: prod.splits)

lemma setGlobals_Lib:
  assumes "applySettings lib onErr toStr props globalSettings = (evs, None)"
  shows "setGlobals (Lib lib) props onErr toStr =
          \<lparr>thrownOut = None, events = evs @ beforeAwait (setRTLTextPlugin lib props onErr),
           laterEvents = afterAwait (setRTLTextPlugin lib props onErr)\<rparr>"
  using assms by (simp add: setGlobals_def Let_def)

lemma setRTLTextPlugin_missing:
  assumes "RTLTextPlugin props \<noteq> Some PluginOff"
    and "lib_getRTLTextPluginStatus lib = None \<or> lib_setRTLTextPlugin lib = None"
  shows "beforeAwait (setRTLTextPlugin lib props onErr)
           = (case onErr of None \<Rightarrow> [] | Some cb \<Rightarrow> [CalledOnError (missingApiError props)])"
    and "afterAwait (setRTLTextPlugin lib props onErr) = []"
  using assms
  by (auto simp: setRTLTextPlugin_def callOptional_events[symmetric] split: option.splits prod.splits)

lemma setRTLTextPlugin_race:
  assumes "RTLTextPlugin props \<noteq> Some PluginOff"
    and "lib_getRTLTextPluginStatus lib = Some (Inr ''unavailable'')"
    and "lib_setRTLTextPlugin lib = Some l"
  shows "beforeAwait (setRTLTextPlugin lib props onErr)
           = [TimerStarted (rtlTimeout props), PluginRequested (rtlUrl props) True]"
    and "afterAwait (setRTLTextPlugin lib props onErr)
           = (case raceOutcome l (rtlTimeout props) of
                None \<Rightarrow> []
              | Some e \<Rightarrow> fst (reportFailure props onErr e))"
  using assms
  by (auto simp: setRTLTextPlugin_def Let_def split: option.splits prod.splits)

text \<open>
  Claim C9, as the code has it. Let the settings loop return normally and the plugin not be
  disabled. Then \<^verbatim>\<open>setGlobals\<close> returns normally whatever the plugin load does. The
  timeout is \<^verbatim>\<open>RTLPluginTimeout\<close>, 10000 ms when absent. When the load is started and
  fails or loses the race against the timer, the error is passed, after
  \<^verbatim>\<open>setGlobals\<close> has returned, to \<^verbatim>\<open>onRTLPluginError\<close> (when given) and then to
  \<^verbatim>\<open>onError\<close> (when given). When the map library lacks
  \<^verbatim>\<open>getRTLTextPluginStatus\<close> or \<^verbatim>\<open>setRTLTextPlugin\<close>, the error is passed to
  \<^verbatim>\<open>onError\<close> only.
\<close>

theorem rtl_plugin_best_effort:
  assumes "applySettings lib onErr toStr props globalSettings = (evs, None)"
    and "RTLTextPlugin props \<noteq> Some PluginOff"
  shows "thrownOut (setGlobals (Lib lib) props onErr toStr) = None
       \<and> (RTLPluginTimeout props = None \<longrightarrow> rtlTimeout props = 10000)
       \<and> (lib_getRTLTextPluginStatus lib = None \<or> lib_setRTLTextPlugin lib = None
            \<longrightarrow> events (setGlobals (Lib lib) props onErr toStr)
                  = evs @ (case onErr of None \<Rightarrow> []
                            | Some cb \<Rightarrow> [CalledOnError (missingApiError props)])
                \<and> laterEvents (setGlobals (Lib lib) props onErr toStr) = [])
       \<and> (lib_getRTLTextPluginStatus lib = Some (Inr ''unavailable'')
            \<and> lib_setRTLTextPlugin lib = Some l
            \<longrightarrow> events (setGlobals (Lib lib) props onErr toStr)
                  = evs @ [TimerStarted (rtlTimeout props), PluginRequested (rtlUrl props) True]
                \<and> laterEvents (setGlobals (Lib lib) props onErr toStr)
                  = (case raceOutcome l (rtlTimeout props) of
                       None \<Rightarrow> []
                     | Some e \<Rightarrow>
                         (case onRTLPluginError props of
                            None \<Rightarrow> []
                          | Some cb \<Rightarrow> [CalledOnRTLPluginError (rtlError props e)])
                         @ (case onErr of
                              None \<Rightarrow> []
                            | Some cb \<Rightarrow> [CalledOnError (rtlError props e)])))"
proof -
  note run = setGlobals_Lib[OF assms(1)]
  have 1: "thrownOut (setGlobals (Lib lib) props onErr toStr) = None"
    by (simp add: run)
  have 2: "RTLPluginTimeout props = None \<longrightarrow> rtlTimeout props = 10000"
    by (simp add: rtlTimeout_def DEFAULT_RTL_TIMEOUT_def)
  have 3: "lib_getRTLTextPluginStatus lib = None \<or> lib_setRTLTextPlugin lib = None
            \<longrightarrow> events (setGlobals (Lib lib) props onErr toStr)
                  = evs @ (case onErr of None \<Rightarrow> []
                            | Some cb \<Rightarrow> [CalledOnError (missingApiError props)])
                \<and> laterEvents (setGlobals (Lib lib) props onErr toStr) = []"
    using setRTLTextPlugin_missing[OF assms(2), of lib onErr] by (simp add: run)
  have 4: "lib_getRTLTextPluginStatus lib = Some (Inr ''unavailable'')
            \<and> lib_setRTLTextPlugin lib = Some l
            \<longrightarrow> events (setGlobals (Lib lib) props onErr toStr)
                  = evs @ [TimerStarted (rtlTimeout props), PluginRequested (rtlUrl props) True]
                \<and> laterEvents (setGlobals (Lib lib) props onErr toStr)
                  = (case raceOutcome l (rtlTimeout props) of
                       None \<Rightarrow> []
                     | Some e \<Rightarrow>
                         (case onRTLPluginError props of
                            None \<Rightarrow> []
                          | Some cb \<Rightarrow> [CalledOnRTLPluginError (rtlError props e)])
                         @ (case onErr of
                              None \<Rightarrow> []
                            | Some cb \<Rightarrow> [CalledOnError (rtlError props e)]))"
    using setRTLTextPlugin_race[OF assms(2), of lib l onErr]
    by (simp add: run reportFailure_events cong: option.case_cong)
  from 1 2 3 4 show ?thesis by blast
qed

theorem rtl_plugin_best_effort_witness:
  "thrownOut (setGlobals (Lib (libWithPlugin LoaderSilent)) propsCustomHandler (Some Returns) (\<lambda>v. [])) = None
   \<and> events (setGlobals (Lib (libWithPlugin LoaderSilent)) propsCustomHandler (Some Returns) (\<lambda>v. []))
       = [TimerStarted 10000, PluginRequested DEFAULT_RTL_PLUGIN_URL True]
   \<and> laterEvents (setGlobals (Lib (libWithPlugin LoaderSilent)) propsCustomHandler (Some Returns) (\<lambda>v. []))
       = [CalledOnRTLPluginError
            (createGlobalSettingsError ''RTLTextPlugin'' (JStr DEFAULT_RTL_PLUGIN_URL)
               ''Failed to load RTL text plugin: RTL plugin loading timeout after 10000ms''),
          CalledOnError
            (createGlobalSettingsError ''RTLTextPlugin'' (JStr DEFAULT_RTL_PLUGIN_URL)
               ''Failed to load RTL text plugin: RTL plugin loading timeout after 10000ms'')]
   \<and> events (setGlobals (Lib libWithoutPlugin) propsCustomHandler (Some Returns) (\<lambda>v. []))
       = [CalledOnError
            (createGlobalSettingsError ''RTLTextPlugin'' (JStr DEFAULT_RTL_PLUGIN_URL)
               ''RTL text plugin methods not available on mapLib'')]"
proof -
  have s1: "applySettings lib (Some Returns) (\<lambda>v. []) propsCustomHandler globalSettings = ([], None)"
    for lib
    by (simp add: globalSettings_def propsCustomHandler_def)
  have on: "RTLTextPlugin propsCustomHandler \<noteq> Some PluginOff"
    by (simp add: propsCustomHandler_def)
  have t: "rtlTimeout propsCustomHandler = 10000"
    by (simp add: rtlTimeout_def propsCustomHandler_def DEFAULT_RTL_TIMEOUT_def)
  have u: "rtlUrl propsCustomHandler = DEFAULT_RTL_PLUGIN_URL"
    by (simp add: rtlUrl_def propsCustomHandler_def)
  have h: "onRTLPluginError propsCustomHandler = Some Returns"
    by (simp add: propsCustomHandler_def)
  have d: "decimal 10000 = ''10000''"
    by (simp add: decimal.simps)
  have r: "raceOutcome LoaderSilent 10000
             = Some (JsError ''RTL plugin loading timeout after 10000ms'')"
    by (simp add: raceOutcome_def timeoutError_def d)
  from rtl_plugin_best_effort[OF s1 on, of "libWithPlugin LoaderSilent" LoaderSilent]
  have 1: "thrownOut (setGlobals (Lib (libWithPlugin LoaderSilent)) propsCustomHandler (Some Returns) (\<lambda>v. [])) = None
   \<and> events (setGlobals (Lib (libWithPlugin LoaderSilent)) propsCustomHandler (Some Returns) (\<lambda>v. []))
       = [TimerStarted 10000, PluginRequested DEFAULT_RTL_PLUGIN_URL True]
   \<and> laterEvents (setGlobals (Lib (libWithPlugin LoaderSilent)) propsCustomHandler (Some Returns) (\<lambda>v. []))
       = [CalledOnRTLPluginError
            (createGlobalSettingsError ''RTLTextPlugin'' (JStr DEFAULT_RTL_PLUGIN_URL)
               ''Failed to load RTL text plugin: RTL plugin loading timeout after 10000ms''),
          CalledOnError
            (createGlobalSettingsError ''RTLTextPlugin'' (JStr DEFAULT_RTL_PLUGIN_URL)
               ''Failed to load RTL text plugin: RTL plugin loading timeout after 10000ms'')]"
    by (simp add: libWithPlugin_def t u r rtlError_def h)
  from rtl_plugin_best_effort[OF s1 on, of libWithoutPlugin LoaderSilent]
  have 2: "events (setGlobals (Lib libWithoutPlugin) propsCustomHandler (Some Returns) (\<lambda>v. []))
       = [CalledOnError
            (createGlobalSettingsError ''RTLTextPlugin'' (JStr DEFAULT_RTL_PLUGIN_URL)
               ''RTL text plugin methods not available on mapLib'')]"
    by (simp add: libWithoutPlugin_def missingApiError_def u)
  from 1 2 show ?thesis by blast
qed

text \<open>
  Claim C9 as stated fails for a map library without the plugin methods: the caller
  supplies \<^verbatim>\<open>onRTLPluginError\<close> and no \<^verbatim>\<open>onError\<close>, and no callback is called.
\<close>

theorem missing_api_skips_rtl_handler:
  "onRTLPluginError propsCustomHandler = Some Returns
   \<and> lib_setRTLTextPlugin libWithoutPlugin = None
   \<and> thrownOut (setGlobals (Lib libWithoutPlugin) propsCustomHandler None (\<lambda>v. [])) = None
   \<and> events (setGlobals (Lib libWithoutPlugin) propsCustomHandler None (\<lambda>v. [])) = []
   \<and> laterEvents (setGlobals (Lib libWithoutPlugin) propsCustomHandler None (\<lambda>v. [])) = []"
  by (simp add: setGlobals_def globalSettings_def setRTLTextPlugin_def callOptional_def
      propsCustomHandler_def libWithoutPlugin_def)

end
